theory Spec2Isabelle
  imports Main "HOL-Library.Multiset" "HOL-Library.List_Lexorder" "HOL-Library.Char_ord"
begin

section \<open>Values, thrown values and database responses\<close>

text \<open>
  The services and route actions of the application talk to a hosted Postgres database
  through a query-builder client. Every awaited client call either rejects (the promise
  throws) or resolves to a response object with a \<open>data\<close> and an \<open>error\<close> member.
  Values that travel through dynamically built objects (\<open>Record<string, unknown>\<close>, form
  payloads, table rows of the write paths) are JavaScript values; the numbers carried by
  these objects are only copied, never computed with, and are represented by integers.
\<close>

datatype jsval = JNull | JBool bool | JNum int | JStr string | JArr "jsval list"

text \<open>A dynamically built object or a table row: a member that is absent (or
  \<open>undefined\<close>) is \<open>None\<close>; \<open>null\<close> is the value \<open>JNull\<close>.\<close>

type_synonym row = "string \<rightharpoonup> jsval"

type_synonym table = "row list"

text \<open>JavaScript truthiness, as used by \<open>Boolean(x)\<close>, \<open>!x\<close> and \<open>x || y\<close>.\<close>

fun truthy :: "jsval \<Rightarrow> bool" where
  "truthy JNull = False"
| "truthy (JBool b) = b"
| "truthy (JNum n) = (n \<noteq> 0)"
| "truthy (JStr s) = (s \<noteq> [])"
| "truthy (JArr xs) = True"

text \<open>The error member of a response. \<open>is_Error\<close> records whether the object is an
  instance of the JavaScript class \<open>Error\<close> (it depends on the client library).\<close>

record pg_error =
  code :: string
  message :: string
  is_Error :: bool

text \<open>A thrown value: an \<open>Error\<close> instance with its message, or any other value.\<close>

datatype thrown = JsError string | NonError

text \<open>An awaited promise: \<open>Inl\<close> when it rejects, \<open>Inr\<close> when it resolves.\<close>

type_synonym 'a promise = "thrown + 'a"

record 'a response =
  resp_data :: "'a option"
  resp_error :: "pg_error option"

text \<open>What happens to one database call: it goes through, the database answers with an
  error, or the call itself throws (for instance a network failure).\<close>

datatype fault = NoFault | Fails pg_error | Throws thrown

text \<open>The error a \<open>.single()\<close> request gets when the result is not exactly one row.\<close>

definition no_single_row :: pg_error where
  "no_single_row =
     \<lparr>code = ''PGRST116'',
      message = ''JSON object requested, multiple (or no) rows returned'',
      is_Error = False\<rparr>"

section \<open>The database client over stored tables\<close>

text \<open>
  The write paths are modelled over the stored table: a list of rows. A filter
  \<open>.eq(col, v)\<close> selects the rows whose column \<open>col\<close> holds \<open>v\<close>; an update
  overwrites, in every selected row, the columns the payload mentions and leaves the
  others as they are. A statement that the database rejects, or a call that throws,
  leaves the table as it was.
\<close>

definition matching :: "string \<Rightarrow> jsval \<Rightarrow> table \<Rightarrow> row list" where
  "matching col v t = filter (\<lambda>r. r col = Some v) t"

definition apply_update :: "row \<Rightarrow> string \<Rightarrow> jsval \<Rightarrow> table \<Rightarrow> table" where
  "apply_update payload col v t = map (\<lambda>r. if r col = Some v then r ++ payload else r) t"

text \<open>\<open>.from(t).update(payload).eq(col, v)\<close>: no row is asked back, and an update that
  selects no row is not an error.\<close>

definition client_update ::
  "fault \<Rightarrow> row \<Rightarrow> string \<Rightarrow> jsval \<Rightarrow> table \<Rightarrow> unit response promise \<times> table" where
  "client_update f payload col v t =
     (case f of
        Throws x \<Rightarrow> (Inl x, t)
      | Fails e \<Rightarrow> (Inr \<lparr>resp_data = None, resp_error = Some e\<rparr>, t)
      | NoFault \<Rightarrow> (Inr \<lparr>resp_data = None, resp_error = None\<rparr>, apply_update payload col v t))"

text \<open>\<open>.from(t).update(payload).eq(col, v).select().single()\<close>: the updated row is asked
  back as one object; when the update selects no row, or more than one, the request fails
  with \<open>PGRST116\<close> and nothing is written (a filter on the primary key selects at most
  one row).\<close>

definition client_update_single ::
  "fault \<Rightarrow> row \<Rightarrow> string \<Rightarrow> jsval \<Rightarrow> table \<Rightarrow> row response promise \<times> table" where
  "client_update_single f payload col v t =
     (case f of
        Throws x \<Rightarrow> (Inl x, t)
      | Fails e \<Rightarrow> (Inr \<lparr>resp_data = None, resp_error = Some e\<rparr>, t)
      | NoFault \<Rightarrow>
          (case matching col v t of
             [r] \<Rightarrow> (Inr \<lparr>resp_data = Some (r ++ payload), resp_error = None\<rparr>,
                     apply_update payload col v t)
           | _ \<Rightarrow> (Inr \<lparr>resp_data = None, resp_error = Some no_single_row\<rparr>, t)))"

text \<open>\<open>.from(t).select('*').eq(col, v).single()\<close>.\<close>

definition client_select_single ::
  "fault \<Rightarrow> string \<Rightarrow> jsval \<Rightarrow> table \<Rightarrow> row response promise" where
  "client_select_single f col v t =
     (case f of
        Throws x \<Rightarrow> Inl x
      | Fails e \<Rightarrow> Inr \<lparr>resp_data = None, resp_error = Some e\<rparr>
      | NoFault \<Rightarrow>
          (case matching col v t of
             [r] \<Rightarrow> Inr \<lparr>resp_data = Some r, resp_error = None\<rparr>
           | _ \<Rightarrow> Inr \<lparr>resp_data = None, resp_error = Some no_single_row\<rparr>))"

text \<open>\<open>.from(t).insert(payload).select().single()\<close>: \<open>generated\<close> holds the columns the
  database fills in by itself (the primary key, timestamps, column defaults); the payload
  overrides them.\<close>

definition client_insert_single ::
  "fault \<Rightarrow> row \<Rightarrow> row \<Rightarrow> table \<Rightarrow> row response promise \<times> table" where
  "client_insert_single f generated payload t =
     (case f of
        Throws x \<Rightarrow> (Inl x, t)
      | Fails e \<Rightarrow> (Inr \<lparr>resp_data = None, resp_error = Some e\<rparr>, t)
      | NoFault \<Rightarrow>
          (Inr \<lparr>resp_data = Some (generated ++ payload), resp_error = None\<rparr>,
           t @ [generated ++ payload]))"

text \<open>An object literal \<open>{k1: e1, k2: e2, ...}\<close> as it reaches the database: a member
  whose value is \<open>undefined\<close> is not sent.\<close>

definition object_literal :: "(string \<times> jsval option) list \<Rightarrow> row" where
  "object_literal members k = (case map_of members k of Some (Some v) \<Rightarrow> Some v | _ \<Rightarrow> None)"

text \<open>\<open>x ?? d\<close>.\<close>

definition nullish_or :: "jsval option \<Rightarrow> jsval \<Rightarrow> jsval" where
  "nullish_or x d = (case x of None \<Rightarrow> d | Some JNull \<Rightarrow> d | Some v \<Rightarrow> v)"

section \<open>The program service\<close>

subsection \<open>createProgram\<close>

definition createProgram ::
  "row \<Rightarrow> row \<Rightarrow> fault \<Rightarrow> table \<Rightarrow> row option promise \<times> table" where
  "createProgram programData generated f programs =
     (case client_insert_single f generated
        (object_literal
          [(''name'', programData ''name''),
           (''description'', programData ''description''),
           (''duration_minutes'', programData ''duration_minutes''),
           (''max_capacity'', programData ''max_capacity''),
           (''sessions_per_week'', programData ''sessions_per_week''),
           (''min_sessions_per_week'', programData ''min_sessions_per_week''),
           (''max_sessions_per_week'', programData ''max_sessions_per_week''),
           (''min_belt_rank'', programData ''min_belt_rank''),
           (''max_belt_rank'', programData ''max_belt_rank''),
           (''belt_rank_required'',
              Some (nullish_or (programData ''belt_rank_required'') (JBool False))),
           (''prerequisite_programs'', programData ''prerequisite_programs''),
           (''min_age'', programData ''min_age''),
           (''max_age'', programData ''max_age''),
           (''gender_restriction'', programData ''gender_restriction''),
           (''special_needs_support'', programData ''special_needs_support''),
           (''monthly_fee'', programData ''monthly_fee''),
           (''registration_fee'', programData ''registration_fee''),
           (''yearly_fee'', programData ''yearly_fee''),
           (''individual_session_fee'', programData ''individual_session_fee''),
           (''is_active'', Some (nullish_or (programData ''is_active'') (JBool True)))])
        programs of
        (Inl x, programs') \<Rightarrow> (Inl x, programs')
      | (Inr resp, programs') \<Rightarrow>
          (case resp_error resp of
             Some e \<Rightarrow> (Inl (JsError (''Failed to create program: '' @ message e)), programs')
           | None \<Rightarrow> (Inr (resp_data resp), programs')))"

subsection \<open>updateProgram\<close>

text \<open>\<open>if (updates.k !== undefined) updateData.k = updates.k\<close>.\<close>

definition set_if_defined :: "row \<Rightarrow> string \<Rightarrow> row \<Rightarrow> row" where
  "set_if_defined updates k updateData =
     (case updates k of None \<Rightarrow> updateData | Some v \<Rightarrow> updateData(k \<mapsto> v))"

text \<open>The members the function copies, in the order of its statements.\<close>

definition update_fields :: "string list" where
  "update_fields =
     [''name'', ''description'', ''duration_minutes'',
      ''max_capacity'',
      ''sessions_per_week'', ''min_sessions_per_week'', ''max_sessions_per_week'',
      ''min_belt_rank'', ''max_belt_rank'', ''belt_rank_required'',
      ''prerequisite_programs'',
      ''min_age'', ''max_age'', ''gender_restriction'', ''special_needs_support'',
      ''monthly_fee'', ''registration_fee'', ''yearly_fee'', ''individual_session_fee'',
      ''is_active'']"

text \<open>The payload \<open>updateData\<close>; \<open>now\<close> is \<open>new Date().toISOString()\<close> at the call.\<close>

definition program_updateData :: "string \<Rightarrow> row \<Rightarrow> row" where
  "program_updateData now updates =
     fold (set_if_defined updates) update_fields [''updated_at'' \<mapsto> JStr now]"

definition updateProgram ::
  "string \<Rightarrow> row \<Rightarrow> string \<Rightarrow> fault \<Rightarrow> table \<Rightarrow> row option promise \<times> table" where
  "updateProgram ident updates now f programs =
     (case client_update_single f (program_updateData now updates) ''id'' (JStr ident) programs of
        (Inl x, programs') \<Rightarrow> (Inl x, programs')
      | (Inr resp, programs') \<Rightarrow>
          (case resp_error resp of
             Some e \<Rightarrow> (Inl (JsError (''Failed to update program: '' @ message e)), programs')
           | None \<Rightarrow> (Inr (resp_data resp), programs')))"

subsection \<open>getPrograms and getProgramById\<close>

record program_filters =
  is_active :: "bool option"
  search :: "string option"

text \<open>The query the function builds before awaiting it. The matching of \<open>ilike\<close> patterns
  and the ordering are the database's; the client runs the query as a whole.\<close>

record programs_query =
  q_eq_is_active :: "bool option"
  q_or :: "string option"
  q_order :: string

definition programs_query_of :: "program_filters \<Rightarrow> programs_query" where
  "programs_query_of filters =
     \<lparr>q_eq_is_active = is_active filters,
      q_or = (case search filters of
                None \<Rightarrow> None
              | Some s \<Rightarrow>
                  if s = [] then None
                  else Some (''name.ilike.%'' @ s @ ''%,description.ilike.%'' @ s @ ''%'')),
      q_order = ''name''\<rparr>"

definition getPrograms ::
  "program_filters \<Rightarrow> (programs_query \<Rightarrow> row list response promise) \<Rightarrow> row list promise" where
  "getPrograms filters run =
     (case run (programs_query_of filters) of
        Inl x \<Rightarrow> Inl x
      | Inr resp \<Rightarrow>
          (case resp_error resp of
             Some e \<Rightarrow> Inl (JsError (''Failed to fetch programs: '' @ message e))
           | None \<Rightarrow> Inr (case resp_data resp of None \<Rightarrow> [] | Some d \<Rightarrow> d)))"

definition getProgramById :: "string \<Rightarrow> fault \<Rightarrow> table \<Rightarrow> row option promise" where
  "getProgramById ident f programs =
     (case client_select_single f ''id'' (JStr ident) programs of
        Inl x \<Rightarrow> Inl x
      | Inr resp \<Rightarrow>
          (case resp_error resp of
             Some e \<Rightarrow>
               if code e = ''PGRST116'' then Inr None
               else Inl (JsError (''Failed to fetch program: '' @ message e))
           | None \<Rightarrow> Inr (resp_data resp)))"


subsection \<open>checkProgramEligibility\<close>

record program_eligibility =
  eligible :: bool
  reasons :: "string list"

text \<open>The body of the \<open>try\<close> block. \<open>rpc\<close> is the call of the database function
  \<open>check_program_eligibility\<close> with \<open>student_id_param\<close> and \<open>program_id_param\<close>.\<close>

definition checkProgramEligibility_try ::
  "string \<Rightarrow> string \<Rightarrow> (string \<Rightarrow> string \<Rightarrow> jsval response promise)
     \<Rightarrow> program_eligibility promise" where
  "checkProgramEligibility_try programId studentId rpc =
     (case rpc studentId programId of
        Inl x \<Rightarrow> Inl x
      | Inr resp \<Rightarrow>
          if resp_error resp \<noteq> None
          then Inr \<lparr>eligible = False, reasons = [''Error checking eligibility'']\<rparr>
          else
            let isEligible = (case resp_data resp of None \<Rightarrow> False | Some v \<Rightarrow> truthy v)
            in if isEligible
               then Inr \<lparr>eligible = True, reasons = []\<rparr>
               else Inr \<lparr>eligible = False,
                         reasons = [''Student does not meet program requirements'']\<rparr>)"

definition checkProgramEligibility ::
  "string \<Rightarrow> string \<Rightarrow> (string \<Rightarrow> string \<Rightarrow> jsval response promise)
     \<Rightarrow> program_eligibility promise" where
  "checkProgramEligibility programId studentId rpc =
     (case checkProgramEligibility_try programId studentId rpc of
        Inl x \<Rightarrow> Inr \<lparr>eligible = False, reasons = [''System error checking eligibility'']\<rparr>
      | Inr r \<Rightarrow> Inr r)"

text \<open>Whether the database function yielded a truthy value without error.\<close>

definition rpc_truthy :: "jsval response promise \<Rightarrow> bool" where
  "rpc_truthy p =
     (case p of
        Inl x \<Rightarrow> False
      | Inr resp \<Rightarrow> resp_error resp = None \<and>
          (case resp_data resp of None \<Rightarrow> False | Some v \<Rightarrow> truthy v))"

section \<open>The admin edit actions\<close>

text \<open>
  A route action receives the route parameters, the submitted form and the environment.
  \<open>formData.get(k)\<close> is \<open>None\<close> when the form has no entry \<open>k\<close>. An action resolves to a
  JSON response with a status, or to a redirect.
\<close>

type_synonym form = "string \<rightharpoonup> string"

record env =
  SUPABASE_URL :: "string option"
  SUPABASE_SERVICE_ROLE_KEY :: "string option"

record ActionData =
  ad_success :: "bool option"
  ad_message :: "string option"
  ad_error :: "string option"
  ad_fieldErrors :: "(string \<times> string) list option"

datatype http_response = Json nat ActionData | Redirect string

text \<open>\<open>!x\<close> for a value of type \<open>string | null | undefined\<close>.\<close>

definition missing :: "string option \<Rightarrow> bool" where
  "missing x = (case x of None \<Rightarrow> True | Some s \<Rightarrow> s = [])"

text \<open>A value of type \<open>string | null\<close> as a JavaScript value.\<close>

definition js_of :: "string option \<Rightarrow> jsval" where
  "js_of x = (case x of None \<Rightarrow> JNull | Some s \<Rightarrow> JStr s)"

text \<open>\<open>x || null\<close>.\<close>

definition or_null :: "string option \<Rightarrow> jsval" where
  "or_null x = (if missing x then JNull else js_of x)"

text \<open>\<open>if (!value) fieldErrors.k = msg\<close>: the object \<open>fieldErrors\<close> is the list of its
  members in the order they were set.\<close>

definition require ::
  "bool \<Rightarrow> string \<Rightarrow> string \<Rightarrow> (string \<times> string) list \<Rightarrow> (string \<times> string) list" where
  "require absent k msg fieldErrors = (if absent then fieldErrors @ [(k, msg)] else fieldErrors)"

subsection \<open>The family edit action\<close>

definition family_fieldErrors :: "form \<Rightarrow> (string \<times> string) list" where
  "family_fieldErrors formData =
     (let fieldErrors = [];
          fieldErrors = require (missing (formData ''name''))
                          ''name'' ''Family name is required.'' fieldErrors;
          fieldErrors = require (missing (formData ''email''))
                          ''email'' ''Email is required.'' fieldErrors;
          fieldErrors = require (missing (formData ''address''))
                          ''address'' ''Address is required.'' fieldErrors;
          fieldErrors = require (missing (formData ''city''))
                          ''city'' ''City is required.'' fieldErrors;
          fieldErrors = require (missing (formData ''province''))
                          ''province'' ''Province is required.'' fieldErrors;
          fieldErrors = require (missing (formData ''postal_code''))
                          ''postal_code'' ''Postal code is required.'' fieldErrors;
          fieldErrors = require (missing (formData ''primary_phone''))
                          ''primary_phone'' ''Primary phone is required.'' fieldErrors
      in fieldErrors)"

definition family_update_payload :: "form \<Rightarrow> string \<Rightarrow> row" where
  "family_update_payload formData now =
     object_literal
       [(''name'', Some (js_of (formData ''name''))),
        (''email'', Some (js_of (formData ''email''))),
        (''primary_phone'', Some (js_of (formData ''primary_phone''))),
        (''address'', Some (js_of (formData ''address''))),
        (''city'', Some (js_of (formData ''city''))),
        (''province'', Some (js_of (formData ''province''))),
        (''postal_code'', Some (js_of (formData ''postal_code''))),
        (''emergency_contact'', Some (js_of (formData ''emergency_contact''))),
        (''health_info'', Some (js_of (formData ''health_info''))),
        (''notes'', Some (js_of (formData ''notes''))),
        (''referral_source'', Some (js_of (formData ''referral_source''))),
        (''referral_name'', Some (js_of (formData ''referral_name''))),
        (''updated_at'', Some (JStr now))]"

text \<open>\<open>action\<close> of the family edit route. \<open>invariant\<close> throws when the route parameter
  is missing; \<open>now\<close> is \<open>new Date().toISOString()\<close> at the call.\<close>

definition family_edit_action ::
  "env \<Rightarrow> string option \<Rightarrow> form \<Rightarrow> string \<Rightarrow> fault \<Rightarrow> table
     \<Rightarrow> http_response promise \<times> table" where
  "family_edit_action e params_familyId formData now f families =
     (if missing params_familyId
      then (Inl (JsError ''Invariant failed: Missing familyId parameter''), families)
      else
        let familyId = the params_familyId;
            fieldErrors = family_fieldErrors formData
        in if fieldErrors \<noteq> []
           then (Inr (Json 400 \<lparr>ad_success = None, ad_message = None,
                               ad_error = Some ''Validation failed'',
                               ad_fieldErrors = Some fieldErrors\<rparr>), families)
           else if missing (SUPABASE_URL e) \<or> missing (SUPABASE_SERVICE_ROLE_KEY e)
           then (Inr (Json 500 \<lparr>ad_success = None, ad_message = None,
                               ad_error = Some ''Server configuration error'',
                               ad_fieldErrors = None\<rparr>), families)
           else
             (case client_update f (family_update_payload formData now)
                     ''id'' (JStr familyId) families of
                (Inl x, families') \<Rightarrow> (Inl x, families')
              | (Inr resp, families') \<Rightarrow>
                  (case resp_error resp of
                     Some err \<Rightarrow>
                       (Inr (Json 500 \<lparr>ad_success = None, ad_message = None,
                                       ad_error = Some (''Database error: '' @ message err),
                                       ad_fieldErrors = None\<rparr>), families')
                   | None \<Rightarrow> (Inr (Redirect (''/admin/families/'' @ familyId)), families'))))"

subsection \<open>The student edit action\<close>

definition student_updateData :: "form \<Rightarrow> row" where
  "student_updateData formData =
     object_literal
       [(''first_name'', Some (js_of (formData ''first_name''))),
        (''last_name'', Some (js_of (formData ''last_name''))),
        (''gender'', Some (js_of (formData ''gender''))),
        (''birth_date'', Some (js_of (formData ''birth_date''))),
        (''cell_phone'', Some (or_null (formData ''cell_phone''))),
        (''email'', Some (or_null (formData ''email''))),
        (''t_shirt_size'', Some (js_of (formData ''t_shirt_size''))),
        (''school'', Some (js_of (formData ''school''))),
        (''grade_level'', Some (or_null (formData ''grade_level''))),
        (''special_needs'', Some (or_null (formData ''special_needs''))),
        (''allergies'', Some (or_null (formData ''allergies''))),
        (''medications'', Some (or_null (formData ''medications''))),
        (''immunizations_up_to_date'',
           Some (if formData ''immunizations_up_to_date'' = Some ''on''
                 then JStr ''true'' else JStr ''false'')),
        (''immunization_notes'', Some (or_null (formData ''immunization_notes'')))]"

text \<open>\<open>!updateData.k\<close>.\<close>

definition falsy_member :: "row \<Rightarrow> string \<Rightarrow> bool" where
  "falsy_member obj k = (case obj k of None \<Rightarrow> True | Some v \<Rightarrow> \<not> truthy v)"

definition student_fieldErrors :: "row \<Rightarrow> (string \<times> string) list" where
  "student_fieldErrors updateData =
     (let fieldErrors = [];
          fieldErrors = require (falsy_member updateData ''first_name'')
                          ''first_name'' ''First name is required.'' fieldErrors;
          fieldErrors = require (falsy_member updateData ''last_name'')
                          ''last_name'' ''Last name is required.'' fieldErrors;
          fieldErrors = require (falsy_member updateData ''gender'')
                          ''gender'' ''Gender is required.'' fieldErrors;
          fieldErrors = require (falsy_member updateData ''birth_date'')
                          ''birth_date'' ''Birth date is required.'' fieldErrors;
          fieldErrors = require (falsy_member updateData ''t_shirt_size'')
                          ''t_shirt_size'' ''T-shirt size is required.'' fieldErrors;
          fieldErrors = require (falsy_member updateData ''school'')
                          ''school'' ''School is required.'' fieldErrors
      in fieldErrors)"

text \<open>The message the \<open>catch\<close> block reports for a thrown value.\<close>

definition errorMessage :: "thrown \<Rightarrow> string" where
  "errorMessage x = (case x of JsError m \<Rightarrow> m | NonError \<Rightarrow> ''An unknown error occurred.'')"

text \<open>\<open>throw updateError\<close>: the thrown value is the error object of the response.\<close>

definition thrown_of :: "pg_error \<Rightarrow> thrown" where
  "thrown_of err = (if is_Error err then JsError (message err) else NonError)"

definition student_edit_action ::
  "env \<Rightarrow> string option \<Rightarrow> form \<Rightarrow> fault \<Rightarrow> table \<Rightarrow> http_response promise \<times> table" where
  "student_edit_action e params_studentId formData f students =
     (if missing params_studentId
      then (Inr (Json 400 \<lparr>ad_success = None, ad_message = None,
                          ad_error = Some ''Student ID is required'',
                          ad_fieldErrors = None\<rparr>), students)
      else if formData ''intent'' \<noteq> Some ''edit''
      then (Inr (Json 400 \<lparr>ad_success = None, ad_message = None,
                          ad_error = Some ''Invalid intent'',
                          ad_fieldErrors = None\<rparr>), students)
      else
        let studentId = the params_studentId;
            updateData = student_updateData formData;
            fieldErrors = student_fieldErrors updateData
        in if list_ex (\<lambda>(k, msg). msg \<noteq> []) fieldErrors
           then (Inr (Json 400 \<lparr>ad_success = None, ad_message = None,
                               ad_error = Some ''Please correct the errors below.'',
                               ad_fieldErrors = Some fieldErrors\<rparr>), students)
           else if missing (SUPABASE_URL e) \<or> missing (SUPABASE_SERVICE_ROLE_KEY e)
           then (Inr (Json 500 \<lparr>ad_success = None, ad_message = None,
                               ad_error = Some ''Server configuration error.'',
                               ad_fieldErrors = None\<rparr>), students)
           else
             (case client_update f updateData ''id'' (JStr studentId) students of
                (r, students') \<Rightarrow>
                  (case (case r of
                           Inl x \<Rightarrow> Inl x
                         | Inr resp \<Rightarrow>
                             (case resp_error resp of
                                Some updateError \<Rightarrow> Inl (thrown_of updateError)
                              | None \<Rightarrow>
                                  Inr (Json 200
                                    \<lparr>ad_success = Some True,
                                     ad_message = Some ''Student details updated successfully.'',
                                     ad_error = None, ad_fieldErrors = None\<rparr>))) of
                     Inl x \<Rightarrow>
                       (Inr (Json 500
                          \<lparr>ad_success = None, ad_message = None,
                           ad_error = Some (''Failed to update student: '' @ errorMessage x),
                           ad_fieldErrors = None\<rparr>), students')
                   | Inr response \<Rightarrow> (Inr response, students'))))"

section \<open>The payment eligibility service\<close>

text \<open>
  The service only reads. Each table is a list of rows with the columns its queries
  mention; \<open>db_faults\<close> says, for each table, what happens to a read of it. The helper
  \<open>checkStudentEligibility\<close>, the price \<open>siteConfig.pricing.monthly\<close> and the type
  \<open>EligibilityStatus\<close> belong to other modules: the helper and the price are members of
  the client record, and of the status only the member \<open>reason\<close> is read here.
  Instants (\<open>valid_until\<close>, the clock) are milliseconds since the epoch.
\<close>

record family_row =
  families_id :: string
  families_name :: "string option"

record student_row =
  students_id :: string
  students_first_name :: string
  students_last_name :: string
  students_family_id :: "string option"

record payment_row =
  payments_id :: string
  payments_family_id :: string
  payments_status :: string

record payment_student_row =
  link_student_id :: string
  link_payment_id :: string

record session_row =
  sessions_id :: string
  sessions_family_id :: string
  purchase_date :: string
  quantity_purchased :: int
  quantity_remaining :: int

record discount_row =
  discount_id :: string
  discount_is_active :: bool
  discount_family_id :: "string option"
  valid_until :: "nat option"

datatype table_name =
  Families | Students | Payments | Payment_students | One_on_one_sessions | Discount_codes

record EligibilityStatus =
  reason :: string

text \<open>
  The totals are JavaScript numbers, computed with \<open>+\<close>. A number is a double: a sum of
  two integer-valued doubles is the exact sum rounded to 53 significant bits, to the
  nearest value and on a tie to the even one; it is exact up to \<open>2^53\<close> and infinite from
  \<open>2^1024\<close> on. The quantities of a row are integer-valued doubles.
\<close>

datatype number = Num int | PosInfinity | NegInfinity | NaN

function bit_length :: "int \<Rightarrow> nat" where
  "bit_length n = (if n \<le> 0 then 0 else Suc (bit_length (n div 2)))"
  by pat_completeness auto
termination
  by (relation "measure nat") auto

definition round_to_double :: "int \<Rightarrow> number" where
  "round_to_double n =
     (if \<bar>n\<bar> \<le> 9007199254740992 then Num n
      else
        let q = 2 ^ (bit_length \<bar>n\<bar> - 53);
            m = \<bar>n\<bar> div q;
            r = \<bar>n\<bar> mod q;
            m' = (if q < 2 * r \<or> (2 * r = q \<and> odd m) then m + 1 else m)
        in if 2 ^ 1024 \<le> m' * q then (if n < 0 then NegInfinity else PosInfinity)
           else Num (sgn n * (m' * q)))"

text \<open>\<open>x + y\<close> on numbers.\<close>

fun js_add :: "number \<Rightarrow> number \<Rightarrow> number" where
  "js_add (Num a) (Num b) = round_to_double (a + b)"
| "js_add NaN y = NaN"
| "js_add x NaN = NaN"
| "js_add PosInfinity NegInfinity = NaN"
| "js_add NegInfinity PosInfinity = NaN"
| "js_add PosInfinity y = PosInfinity"
| "js_add x PosInfinity = PosInfinity"
| "js_add NegInfinity y = NegInfinity"
| "js_add x NegInfinity = NegInfinity"

record purchase =
  purchase_id :: string
  purchaseDate :: string
  quantityPurchased :: int
  quantityRemaining :: int

record IndividualSessionInfo =
  totalPurchased :: number
  totalRemaining :: number
  purchases :: "purchase list"

record StudentPaymentDetail =
  studentId :: string
  firstName :: string
  lastName :: string
  eligibility :: EligibilityStatus
  needsPayment :: bool
  nextPaymentAmount :: int
  nextPaymentTierLabel :: string
  pastPaymentCount :: nat
  individualSessions :: IndividualSessionInfo

record PaymentEligibilityData =
  familyId :: string
  familyName :: "string option"
  studentPaymentDetails :: "StudentPaymentDetail list"
  hasAvailableDiscounts :: bool
  error :: "string option"

record eligibility_client =
  db_families :: "family_row list"
  db_students :: "student_row list"
  db_payments :: "payment_row list"
  db_payment_students :: "payment_student_row list"
  db_one_on_one_sessions :: "session_row list"
  db_discount_codes :: "discount_row list"
  db_faults :: "table_name \<Rightarrow> fault"
  checkStudentEligibility :: "string \<Rightarrow> EligibilityStatus promise"
  pricing_monthly :: int
  clock_now :: nat

text \<open>A read that returns the rows the query selects.\<close>

definition select_rows :: "fault \<Rightarrow> 'a list \<Rightarrow> 'a list response promise" where
  "select_rows f rows =
     (case f of
        Throws x \<Rightarrow> Inl x
      | Fails err \<Rightarrow> Inr \<lparr>resp_data = None, resp_error = Some err\<rparr>
      | NoFault \<Rightarrow> Inr \<lparr>resp_data = Some rows, resp_error = None\<rparr>)"

text \<open>A read with \<open>.single()\<close>: exactly one selected row, or the error \<open>PGRST116\<close>.\<close>

definition select_single :: "fault \<Rightarrow> 'a list \<Rightarrow> 'a response promise" where
  "select_single f rows =
     (case f of
        Throws x \<Rightarrow> Inl x
      | Fails err \<Rightarrow> Inr \<lparr>resp_data = None, resp_error = Some err\<rparr>
      | NoFault \<Rightarrow>
          (case rows of
             [r] \<Rightarrow> Inr \<lparr>resp_data = Some r, resp_error = None\<rparr>
           | _ \<Rightarrow> Inr \<lparr>resp_data = None, resp_error = Some no_single_row\<rparr>))"

subsection \<open>getFamilyIndividualSessions\<close>

text \<open>The rows of the family, newest purchase first. Among purchases of the same date
  the database is free to choose an order; the model takes the one of the sort.\<close>

definition sessions_query :: "string \<Rightarrow> eligibility_client \<Rightarrow> session_row list" where
  "sessions_query family_id c =
     rev (sort_key purchase_date
            (filter (\<lambda>s. sessions_family_id s = family_id) (db_one_on_one_sessions c)))"

definition no_sessions :: IndividualSessionInfo where
  "no_sessions = \<lparr>totalPurchased = Num 0, totalRemaining = Num 0, purchases = []\<rparr>"

definition getFamilyIndividualSessions_try ::
  "string \<Rightarrow> eligibility_client \<Rightarrow> IndividualSessionInfo promise" where
  "getFamilyIndividualSessions_try family_id c =
     (case select_rows (db_faults c One_on_one_sessions) (sessions_query family_id c) of
        Inl x \<Rightarrow> Inl x
      | Inr resp \<Rightarrow>
          if resp_error resp \<noteq> None then Inr no_sessions
          else
            let rows = map (\<lambda>session.
                              \<lparr>purchase_id = sessions_id session,
                               purchaseDate = purchase_date session,
                               quantityPurchased = quantity_purchased session,
                               quantityRemaining = quantity_remaining session\<rparr>)
                         (case resp_data resp of None \<Rightarrow> [] | Some sessionsData \<Rightarrow> sessionsData)
            in Inr \<lparr>totalPurchased =
                      foldl (\<lambda>acc p. js_add acc (Num (quantityPurchased p))) (Num 0) rows,
                    totalRemaining =
                      foldl (\<lambda>acc p. js_add acc (Num (quantityRemaining p))) (Num 0) rows,
                    purchases = rows\<rparr>)"

definition getFamilyIndividualSessions ::
  "string \<Rightarrow> eligibility_client \<Rightarrow> IndividualSessionInfo promise" where
  "getFamilyIndividualSessions family_id c =
     (case getFamilyIndividualSessions_try family_id c of
        Inl x \<Rightarrow> Inr no_sessions
      | Inr info \<Rightarrow> Inr info)"

subsection \<open>getFamilyPaymentEligibilityData\<close>

text \<open>The object every error path returns.\<close>

definition error_result :: "string \<Rightarrow> string option \<Rightarrow> string \<Rightarrow> PaymentEligibilityData" where
  "error_result family_id name msg =
     \<lparr>familyId = family_id, familyName = name, studentPaymentDetails = [],
      hasAvailableDiscounts = False, error = Some msg\<rparr>"

text \<open>Step 6, the loop over the students: an exception of \<open>checkStudentEligibility\<close>
  leaves the loop.\<close>

fun student_details ::
  "eligibility_client \<Rightarrow> payment_student_row list \<Rightarrow> IndividualSessionInfo
     \<Rightarrow> student_row list \<Rightarrow> StudentPaymentDetail list promise" where
  "student_details c links sessions [] = Inr []"
| "student_details c links sessions (student # rest) =
     (case checkStudentEligibility c (students_id student) of
        Inl x \<Rightarrow> Inl x
      | Inr status \<Rightarrow>
          (case student_details c links sessions rest of
             Inl x \<Rightarrow> Inl x
           | Inr details \<Rightarrow>
               Inr (\<lparr>studentId = students_id student,
                     firstName = students_first_name student,
                     lastName = students_last_name student,
                     eligibility = status,
                     needsPayment = (reason status = ''Trial'' \<or> reason status = ''Expired''),
                     nextPaymentAmount = pricing_monthly c,
                     nextPaymentTierLabel = ''Monthly'',
                     pastPaymentCount =
                       length (filter (\<lambda>link. link_student_id link = students_id student) links),
                     individualSessions = sessions\<rparr> # details)))"

text \<open>Step 7, the query for an available discount code.\<close>

definition discounts_query :: "string \<Rightarrow> eligibility_client \<Rightarrow> discount_row list" where
  "discounts_query family_id c =
     take 1
       (filter (\<lambda>d. discount_is_active d
                   \<and> (discount_family_id d = Some family_id \<or> discount_family_id d = None)
                   \<and> (case valid_until d of None \<Rightarrow> True | Some t \<Rightarrow> clock_now c \<le> t))
          (db_discount_codes c))"

text \<open>Steps 5 to 7. \<open>reads\<close> lists the tables read so far, oldest first.\<close>

definition eligibility_steps_5_to_7 ::
  "string \<Rightarrow> eligibility_client \<Rightarrow> string option \<Rightarrow> student_row list
     \<Rightarrow> payment_student_row list \<Rightarrow> table_name list
     \<Rightarrow> PaymentEligibilityData promise \<times> table_name list" where
  "eligibility_steps_5_to_7 family_id c name studs paymentStudentLinks reads =
     (case getFamilyIndividualSessions family_id c of
        Inl x \<Rightarrow> (Inl x, reads @ [One_on_one_sessions])
      | Inr sessions \<Rightarrow>
          (case student_details c paymentStudentLinks sessions studs of
             Inl x \<Rightarrow> (Inl x, reads @ [One_on_one_sessions])
           | Inr details \<Rightarrow>
               (case select_rows (db_faults c Discount_codes) (discounts_query family_id c) of
                  Inl x \<Rightarrow> (Inl x, reads @ [One_on_one_sessions, Discount_codes])
                | Inr resp \<Rightarrow>
                    (Inr \<lparr>familyId = family_id, familyName = name,
                          studentPaymentDetails = details,
                          hasAvailableDiscounts =
                            (resp_error resp = None \<and>
                             (case resp_data resp of None \<Rightarrow> False | Some d \<Rightarrow> d \<noteq> [])),
                          error = None\<rparr>,
                     reads @ [One_on_one_sessions, Discount_codes]))))"

text \<open>Step 4, the payment-student links of the successful payments; the table is read
  only when there is a successful payment.\<close>

definition eligibility_step_4 ::
  "string \<Rightarrow> eligibility_client \<Rightarrow> string option \<Rightarrow> student_row list \<Rightarrow> string list
     \<Rightarrow> PaymentEligibilityData promise \<times> table_name list" where
  "eligibility_step_4 family_id c name studs successfulPaymentIds =
     (if successfulPaymentIds \<noteq> []
      then
        (case select_rows (db_faults c Payment_students)
                (filter (\<lambda>l. link_payment_id l \<in> set successfulPaymentIds)
                   (db_payment_students c)) of
           Inl x \<Rightarrow> (Inl x, [Families, Students, Payments, Payment_students])
         | Inr linksResp \<Rightarrow>
             if resp_error linksResp \<noteq> None
             then (Inr (error_result family_id name ''Could not load payment link history.''),
                   [Families, Students, Payments, Payment_students])
             else eligibility_steps_5_to_7 family_id c name studs
                    (case resp_data linksResp of None \<Rightarrow> [] | Some linksData \<Rightarrow> linksData)
                    [Families, Students, Payments, Payment_students])
      else eligibility_steps_5_to_7 family_id c name studs [] [Families, Students, Payments])"

text \<open>Step 3, the successful payments of the family.\<close>

definition eligibility_step_3 ::
  "string \<Rightarrow> eligibility_client \<Rightarrow> string option \<Rightarrow> student_row list
     \<Rightarrow> PaymentEligibilityData promise \<times> table_name list" where
  "eligibility_step_3 family_id c name studs =
     (case select_rows (db_faults c Payments)
             (filter (\<lambda>p. payments_family_id p = family_id \<and> payments_status p = ''succeeded'')
                (db_payments c)) of
        Inl x \<Rightarrow> (Inl x, [Families, Students, Payments])
      | Inr paymentsResp \<Rightarrow>
          if resp_error paymentsResp \<noteq> None
          then (Inr (error_result family_id name ''Could not load payment history.''),
                [Families, Students, Payments])
          else eligibility_step_4 family_id c name studs
                 (case resp_data paymentsResp of
                    None \<Rightarrow> []
                  | Some paymentsData \<Rightarrow> map payments_id paymentsData))"

text \<open>Step 2, the students of the family.\<close>

definition eligibility_step_2 ::
  "string \<Rightarrow> eligibility_client \<Rightarrow> string option
     \<Rightarrow> PaymentEligibilityData promise \<times> table_name list" where
  "eligibility_step_2 family_id c name =
     (case select_rows (db_faults c Students)
             (filter (\<lambda>s. students_family_id s = Some family_id) (db_students c)) of
        Inl x \<Rightarrow> (Inl x, [Families, Students])
      | Inr studentsResp \<Rightarrow>
          if resp_error studentsResp \<noteq> None
          then (Inr (error_result family_id name ''Could not load student information.''),
                [Families, Students])
          else
            (case resp_data studentsResp of
               None \<Rightarrow>
                 (Inr (error_result family_id name ''No students found in this family.''),
                  [Families, Students])
             | Some studentsData \<Rightarrow>
                 if studentsData = []
                 then (Inr (error_result family_id name ''No students found in this family.''),
                       [Families, Students])
                 else eligibility_step_3 family_id c name studentsData))"

text \<open>The body of the \<open>try\<close> block, with the tables it read: step 1, the family name,
  and then the steps above.\<close>

definition getFamilyPaymentEligibilityData_try ::
  "string \<Rightarrow> eligibility_client \<Rightarrow> PaymentEligibilityData promise \<times> table_name list" where
  "getFamilyPaymentEligibilityData_try family_id c =
     (case select_single (db_faults c Families)
             (filter (\<lambda>f. families_id f = family_id) (db_families c)) of
        Inl x \<Rightarrow> (Inl x, [Families])
      | Inr familyResp \<Rightarrow>
          (case (if resp_error familyResp \<noteq> None then None else resp_data familyResp) of
             None \<Rightarrow>
               (Inr (error_result family_id None ''Could not load family details.''), [Families])
           | Some familyData \<Rightarrow> eligibility_step_2 family_id c (families_name familyData)))"

definition getFamilyPaymentEligibilityData ::
  "string \<Rightarrow> eligibility_client \<Rightarrow> PaymentEligibilityData promise \<times> table_name list" where
  "getFamilyPaymentEligibilityData family_id c =
     (case getFamilyPaymentEligibilityData_try family_id c of
        (Inl x, reads) \<Rightarrow>
          (Inr (error_result family_id None
                  ''An unexpected error occurred while loading payment information.''),
           reads)
      | (Inr r, reads) \<Rightarrow> (Inr r, reads))"

section \<open>Notions used by the properties\<close>

text \<open>The environment holds both settings of the database client.\<close>

definition configured :: "env \<Rightarrow> bool" where
  "configured e = (\<not> missing (SUPABASE_URL e) \<and> \<not> missing (SUPABASE_SERVICE_ROLE_KEY e))"

text \<open>The required fields of the family edit form, each with the message the action
  reports when it is missing.\<close>

definition family_required_fields :: "(string \<times> string) list" where
  "family_required_fields =
     [(''name'', ''Family name is required.''),
      (''email'', ''Email is required.''),
      (''address'', ''Address is required.''),
      (''city'', ''City is required.''),
      (''province'', ''Province is required.''),
      (''postal_code'', ''Postal code is required.''),
      (''primary_phone'', ''Primary phone is required.'')]"

subsection \<open>Example data\<close>

definition example_form :: form where
  "example_form =
     [''name'' \<mapsto> ''Lee'', ''email'' \<mapsto> ''lee@example.com'', ''address'' \<mapsto> ''1 Main St'',
      ''city'' \<mapsto> ''Victoria'', ''province'' \<mapsto> ''BC'', ''postal_code'' \<mapsto> ''V8V1A1'',
      ''primary_phone'' \<mapsto> ''2505550100'']"

definition example_env :: env where
  "example_env =
     \<lparr>SUPABASE_URL = Some ''https://db.example'', SUPABASE_SERVICE_ROLE_KEY = Some ''key''\<rparr>"

definition example_families :: table where
  "example_families = [[''id'' \<mapsto> JStr ''f1'', ''name'' \<mapsto> JStr ''Smith'']]"

definition example_student_form :: form where
  "example_student_form =
     [''intent'' \<mapsto> ''edit'', ''first_name'' \<mapsto> ''Ann'', ''last_name'' \<mapsto> ''Lee'',
      ''gender'' \<mapsto> ''Female'', ''birth_date'' \<mapsto> ''2015-03-01'',
      ''t_shirt_size'' \<mapsto> ''YM'', ''school'' \<mapsto> ''Central'']"

definition example_students :: table where
  "example_students = [[''id'' \<mapsto> JStr ''s1'', ''first_name'' \<mapsto> JStr ''Bob'']]"

definition example_programs :: table where
  "example_programs =
     [[''id'' \<mapsto> JStr ''p1'', ''name'' \<mapsto> JStr ''Kids'', ''monthly_fee'' \<mapsto> JNum 100,
       ''updated_at'' \<mapsto> JStr ''2023-12-31T00:00:00.000Z'']]"

definition example_db_error :: pg_error where
  "example_db_error =
     \<lparr>code = ''23505'', message = ''duplicate key value'', is_Error = False\<rparr>"

definition example_incomplete_form :: form where
  "example_incomplete_form = example_form(''city'' := None, ''name'' \<mapsto> [])"

subsection \<open>Responses of the student edit action\<close>

definition success_json :: http_response where
  "success_json = Json 200 \<lparr>ad_success = Some True,
       ad_message = Some ''Student details updated successfully.'',
       ad_error = None, ad_fieldErrors = None\<rparr>"

definition error_json :: "nat \<Rightarrow> string \<Rightarrow> http_response" where
  "error_json status msg = Json status \<lparr>ad_success = None, ad_message = None,
       ad_error = Some msg, ad_fieldErrors = None\<rparr>"

subsection \<open>The rows a family's figures are taken over\<close>

text \<open>The students of a family, and the payment-student links whose payment is a payment
  of the family with status \<open>succeeded\<close>.\<close>

definition family_students :: "string \<Rightarrow> eligibility_client \<Rightarrow> student_row list" where
  "family_students family_id c =
     filter (\<lambda>s. students_family_id s = Some family_id) (db_students c)"

definition succeeded_links :: "string \<Rightarrow> eligibility_client \<Rightarrow> payment_student_row list" where
  "succeeded_links family_id c =
     filter (\<lambda>l. \<exists>p \<in> set (db_payments c).
                    payments_id p = link_payment_id l \<and> payments_family_id p = family_id
                    \<and> payments_status p = ''succeeded'')
       (db_payment_students c)"

text \<open>A run in which nothing fails: each read goes through (the read of the links need
  not, when the family has no successful payment), the family is found, it has a student,
  \<open>checkStudentEligibility\<close> returns for each of its students, and the read of the discount
  codes does not throw.\<close>

definition all_reads_succeed :: "string \<Rightarrow> eligibility_client \<Rightarrow> bool" where
  "all_reads_succeed family_id c =
     (db_faults c Families = NoFault
      \<and> length (filter (\<lambda>f. families_id f = family_id) (db_families c)) = 1
      \<and> db_faults c Students = NoFault
      \<and> family_students family_id c \<noteq> []
      \<and> db_faults c Payments = NoFault
      \<and> (db_faults c Payment_students = NoFault
          \<or> \<not> list_ex (\<lambda>p. payments_family_id p = family_id
                            \<and> payments_status p = ''succeeded'') (db_payments c))
      \<and> list_all (\<lambda>s. \<not> isl (checkStudentEligibility c (students_id s)))
           (family_students family_id c)
      \<and> (case db_faults c Discount_codes of Throws x \<Rightarrow> False | _ \<Rightarrow> True))"

subsection \<open>Results of the eligibility service\<close>

text \<open>The object an error path returns: a non-empty message, no student details, no
  available discounts.\<close>

definition error_shape :: "string \<Rightarrow> PaymentEligibilityData \<Rightarrow> bool" where
  "error_shape fid r =
     ((\<exists>msg. error r = Some msg \<and> msg \<noteq> []) \<and> studentPaymentDetails r = []
      \<and> \<not> hasAvailableDiscounts r \<and> familyId r = fid)"

text \<open>The aggregate of a run in which no read failed: the details are those of the
  loop over the students.\<close>

definition ok_run :: "string \<Rightarrow> eligibility_client \<Rightarrow> student_row list
    \<Rightarrow> payment_student_row list \<Rightarrow> PaymentEligibilityData \<Rightarrow> bool" where
  "ok_run fid c studs links r =
     (error r = None
      \<and> (\<exists>info. student_details c links info studs = Inr (studentPaymentDetails r))
      \<and> (\<forall>x. db_faults c Discount_codes \<noteq> Throws x))"

subsection \<open>Example data of the eligibility service\<close>

definition example_client :: eligibility_client where
  "example_client =
     \<lparr>db_families = [\<lparr>families_id = ''f1'', families_name = Some ''Lee''\<rparr>],
      db_students =
        [\<lparr>students_id = ''s1'', students_first_name = ''Ann'', students_last_name = ''Lee'',
          students_family_id = Some ''f1''\<rparr>,
         \<lparr>students_id = ''s2'', students_first_name = ''Ben'', students_last_name = ''Lee'',
          students_family_id = Some ''f1''\<rparr>,
         \<lparr>students_id = ''s3'', students_first_name = ''Cy'', students_last_name = ''Roe'',
          students_family_id = Some ''f2''\<rparr>],
      db_payments =
        [\<lparr>payments_id = ''p1'', payments_family_id = ''f1'', payments_status = ''succeeded''\<rparr>,
         \<lparr>payments_id = ''p2'', payments_family_id = ''f1'', payments_status = ''failed''\<rparr>,
         \<lparr>payments_id = ''p3'', payments_family_id = ''f2'', payments_status = ''succeeded''\<rparr>],
      db_payment_students =
        [\<lparr>link_student_id = ''s1'', link_payment_id = ''p1''\<rparr>,
         \<lparr>link_student_id = ''s1'', link_payment_id = ''p2''\<rparr>,
         \<lparr>link_student_id = ''s2'', link_payment_id = ''p2''\<rparr>,
         \<lparr>link_student_id = ''s3'', link_payment_id = ''p3''\<rparr>],
      db_one_on_one_sessions =
        [\<lparr>sessions_id = ''o1'', sessions_family_id = ''f1'', purchase_date = ''2024-01-05'',
          quantity_purchased = 5, quantity_remaining = 2\<rparr>,
         \<lparr>sessions_id = ''o2'', sessions_family_id = ''f1'', purchase_date = ''2024-02-01'',
          quantity_purchased = 3, quantity_remaining = 3\<rparr>,
         \<lparr>sessions_id = ''o3'', sessions_family_id = ''f2'', purchase_date = ''2024-02-01'',
          quantity_purchased = 10, quantity_remaining = 1\<rparr>],
      db_discount_codes = [],
      db_faults = (\<lambda>t. NoFault),
      checkStudentEligibility =
        (\<lambda>sid. if sid = ''s1'' then Inr \<lparr>reason = ''Trial''\<rparr>
                else Inr \<lparr>reason = ''Paid - Monthly''\<rparr>),
      pricing_monthly = 49,
      clock_now = 0\<rparr>"

definition example_sessions :: IndividualSessionInfo where
  "example_sessions =
     \<lparr>totalPurchased = Num 8, totalRemaining = Num 5,
      purchases =
        [\<lparr>purchase_id = ''o2'', purchaseDate = ''2024-02-01'',
          quantityPurchased = 3, quantityRemaining = 3\<rparr>,
         \<lparr>purchase_id = ''o1'', purchaseDate = ''2024-01-05'',
          quantityPurchased = 5, quantityRemaining = 2\<rparr>]\<rparr>"

definition example_result :: PaymentEligibilityData where
  "example_result =
     \<lparr>familyId = ''f1'', familyName = Some ''Lee'',
      studentPaymentDetails =
        [\<lparr>studentId = ''s1'', firstName = ''Ann'', lastName = ''Lee'',
          eligibility = \<lparr>reason = ''Trial''\<rparr>, needsPayment = True,
          nextPaymentAmount = 49, nextPaymentTierLabel = ''Monthly'',
          pastPaymentCount = 1, individualSessions = example_sessions\<rparr>,
         \<lparr>studentId = ''s2'', firstName = ''Ben'', lastName = ''Lee'',
          eligibility = \<lparr>reason = ''Paid - Monthly''\<rparr>, needsPayment = False,
          nextPaymentAmount = 49, nextPaymentTierLabel = ''Monthly'',
          pastPaymentCount = 0, individualSessions = example_sessions\<rparr>],
      hasAvailableDiscounts = False, error = None\<rparr>"

definition example_client_payments_down :: eligibility_client where
  "example_client_payments_down =
     example_client\<lparr>db_faults := (\<lambda>t. if t = Payments then Throws NonError else NoFault)\<rparr>"

section \<open>Auxiliary facts\<close>

lemma fold_set_if_defined:
  "fold (set_if_defined u) ks m k =
     (if k \<in> set ks then (case u k of None \<Rightarrow> m k | Some v \<Rightarrow> Some v) else m k)"
  by (induction ks arbitrary: m) (auto simp: set_if_defined_def split: option.splits)

lemma updated_at_not_update_field: "''updated_at'' \<notin> set update_fields"
  by (simp add: update_fields_def)

lemma id_not_update_field: "''id'' \<notin> set update_fields"
  by (simp add: update_fields_def)

lemma program_updateData_apply:
  "program_updateData now u k =
     (if k \<in> set update_fields \<and> u k \<noteq> None then u k
      else if k = ''updated_at'' then Some (JStr now) else None)"
  using updated_at_not_update_field
  by (auto simp: program_updateData_def fold_set_if_defined split: option.splits)

lemma program_updateData_id: "program_updateData now u ''id'' = None"
  using id_not_update_field by (simp add: program_updateData_apply)

lemma updateProgram_table:
  "snd (updateProgram i u now f t) = t \<or>
   snd (updateProgram i u now f t) = apply_update (program_updateData now u) ''id'' (JStr i) t"
  by (auto simp: updateProgram_def client_update_single_def
      split: fault.splits list.splits option.splits)

lemma updateProgram_ok_table:
  "fst (updateProgram i u now f t) = Inr r \<Longrightarrow>
   snd (updateProgram i u now f t) = apply_update (program_updateData now u) ''id'' (JStr i) t"
  by (auto simp: updateProgram_def client_update_single_def
      split: fault.splits list.splits option.splits)

lemma apply_update_none: "matching col v t = [] \<Longrightarrow> apply_update p col v t = t"
  by (induction t) (auto simp: matching_def apply_update_def split: if_splits)

lemma apply_update_again:
  assumes "\<forall>k. k \<noteq> c \<longrightarrow> p2 k = p1 k" and "p1 col = None"
  shows "list_all2 (\<lambda>r r'. \<forall>k. k \<noteq> c \<longrightarrow> r' k = r k)
           (apply_update p1 col v t) (apply_update p2 col v (apply_update p1 col v t))"
  using assms
  by (auto simp: list_all2_conv_all_nth apply_update_def map_add_def split: option.splits)

lemma list_all2_agree_refl: "list_all2 (\<lambda>r r'. \<forall>k. k \<noteq> c \<longrightarrow> r' k = r k) t t"
  by (simp add: list_all2_conv_all_nth)

lemma family_update_payload_apply:
  "k \<noteq> ''updated_at'' \<Longrightarrow> family_update_payload fd now2 k = family_update_payload fd now1 k"
  by (simp add: family_update_payload_def object_literal_def)

lemma family_update_payload_id: "family_update_payload fd now ''id'' = None"
  by (simp add: family_update_payload_def object_literal_def)

lemma family_edit_action_table:
  "snd (family_edit_action e p fd now f t) = t \<or>
   snd (family_edit_action e p fd now f t) =
     apply_update (family_update_payload fd now) ''id'' (JStr (the p)) t"
  by (auto simp: family_edit_action_def client_update_def Let_def
      split: fault.splits option.splits)

lemma family_edit_action_ok_table:
  "fst (family_edit_action e p fd now f t) = Inr (Redirect loc) \<Longrightarrow>
   snd (family_edit_action e p fd now f t) =
     apply_update (family_update_payload fd now) ''id'' (JStr (the p)) t"
  by (auto simp: family_edit_action_def client_update_def Let_def
      split: fault.splits option.splits if_splits)

lemma matching_apply_update:
  "p col = None \<Longrightarrow>
     matching col v (apply_update p col v t) = map (\<lambda>r. r ++ p) (matching col v t)"
  by (induction t) (auto simp: matching_def apply_update_def map_add_def)

lemma apply_update_sets:
  assumes "p col = None" and "p k = Some x"
  shows "\<forall>r' \<in> set (apply_update p col v t). r' col = Some v \<longrightarrow> r' k = Some x"
  using assms by (auto simp: apply_update_def map_add_def)

lemma updateProgram_ok_matching:
  "fst (updateProgram i u now f t) = Inr r \<Longrightarrow> length (matching ''id'' (JStr i) t) = 1"
  by (auto simp: updateProgram_def client_update_single_def
      split: fault.splits list.splits option.splits)

lemma updateProgram_NoFault_table:
  "length (matching ''id'' (JStr i) t) = 1 \<Longrightarrow>
     snd (updateProgram i u now NoFault t)
       = apply_update (program_updateData now u) ''id'' (JStr i) t"
  by (auto simp: updateProgram_def client_update_single_def split: list.splits)

lemma program_updateData_updated_at: "program_updateData now u ''updated_at'' = Some (JStr now)"
  using updated_at_not_update_field by (simp add: program_updateData_apply)

lemma family_update_payload_updated_at:
  "family_update_payload fd now ''updated_at'' = Some (JStr now)"
  by (simp add: family_update_payload_def object_literal_def)

lemma family_edit_action_NoFault_table:
  "fst (family_edit_action e p fd now1 g1 t) = Inr (Redirect loc) \<Longrightarrow>
     snd (family_edit_action e p fd now2 NoFault t')
       = apply_update (family_update_payload fd now2) ''id'' (JStr (the p)) t'"
  by (auto simp: family_edit_action_def client_update_def Let_def
      split: fault.splits option.splits if_splits)

lemma family_fieldErrors_filter:
  "family_fieldErrors formData = filter (\<lambda>(k, msg). missing (formData k)) family_required_fields"
  by (simp add: family_fieldErrors_def require_def family_required_fields_def)

subsection \<open>The eligibility service\<close>

lemma select_rows_ok:
  "select_rows f rows = Inr resp \<Longrightarrow> resp_error resp = None \<Longrightarrow>
     f = NoFault \<and> resp_data resp = Some rows"
  by (auto simp: select_rows_def split: fault.splits)

lemma select_single_ok:
  "select_single f rows = Inr resp \<Longrightarrow> resp_error resp = None \<Longrightarrow> f = NoFault"
  by (auto simp: select_single_def split: fault.splits list.splits)

lemma student_details_ok:
  "student_details c links info studs = Inr ds \<Longrightarrow>
     map studentId ds = map students_id studs
     \<and> (\<forall>d\<in>set ds.
           checkStudentEligibility c (studentId d) = Inr (eligibility d)
           \<and> needsPayment d
               = (reason (eligibility d) = ''Trial'' \<or> reason (eligibility d) = ''Expired'')
           \<and> pastPaymentCount d
               = length (filter (\<lambda>l. link_student_id l = studentId d) links))
     \<and> (\<forall>s\<in>set studs. \<not> isl (checkStudentEligibility c (students_id s)))"
proof (induction studs arbitrary: ds)
  case Nil
  then show ?case by simp
next
  case (Cons s studs)
  then show ?case by (auto split: sum.splits)
qed

lemma error_shape_error_result: "msg \<noteq> [] \<Longrightarrow> error_shape fid (error_result fid name msg)"
  by (simp add: error_shape_def error_result_def)

lemma steps_5_to_7_ok:
  assumes "eligibility_steps_5_to_7 fid c name studs links reads = (Inr r, log)"
  shows "error r = None \<and> familyId r = fid
         \<and> (\<exists>info. student_details c links info studs = Inr (studentPaymentDetails r))
         \<and> (\<forall>x. db_faults c Discount_codes \<noteq> Throws x)"
  using assms
  by (auto simp: eligibility_steps_5_to_7_def select_rows_def
      split: sum.splits fault.splits)

lemma steps_5_to_7_reads:
  "snd (eligibility_steps_5_to_7 fid c name studs links reads) = reads @ [One_on_one_sessions]
   \<or> snd (eligibility_steps_5_to_7 fid c name studs links reads)
       = reads @ [One_on_one_sessions, Discount_codes]"
  by (auto simp: eligibility_steps_5_to_7_def split: sum.splits)

lemma links_query_eq:
  "filter (\<lambda>l. link_payment_id l \<in> set (map payments_id
       (filter (\<lambda>p. payments_family_id p = fid \<and> payments_status p = ''succeeded'')
          (db_payments c)))) (db_payment_students c)
   = succeeded_links fid c"
  unfolding succeeded_links_def
  by (rule filter_cong) (auto simp: image_iff; metis)+

lemma no_succeeded_links:
  "map payments_id
     (filter (\<lambda>p. payments_family_id p = fid \<and> payments_status p = ''succeeded'')
        (db_payments c)) = [] \<Longrightarrow> succeeded_links fid c = []"
  by (auto simp: succeeded_links_def filter_empty_conv)

lemma step_4_result:
  assumes "eligibility_step_4 fid c name studs ids = (Inr r, log)"
    and ids: "ids = map payments_id
       (filter (\<lambda>p. payments_family_id p = fid \<and> payments_status p = ''succeeded'')
          (db_payments c))"
  shows "error_shape fid r
         \<or> (ok_run fid c studs (succeeded_links fid c) r
            \<and> (db_faults c Payment_students = NoFault \<or> ids = []))"
proof (cases "ids = []")
  case True
  with assms have "eligibility_steps_5_to_7 fid c name studs [] [Families, Students, Payments]
      = (Inr r, log)"
    by (simp add: eligibility_step_4_def)
  from steps_5_to_7_ok [OF this] True ids show ?thesis
    by (simp add: ok_run_def no_succeeded_links)
next
  case False
  let ?q = "filter (\<lambda>l. link_payment_id l \<in> set ids) (db_payment_students c)"
  have q: "?q = succeeded_links fid c"
    unfolding ids by (rule links_query_eq)
  show ?thesis
  proof (cases "select_rows (db_faults c Payment_students) ?q")
    case (Inl x)
    with assms(1) False show ?thesis by (simp add: eligibility_step_4_def)
  next
    case (Inr linksResp)
    show ?thesis
    proof (cases "resp_error linksResp = None")
      case True
      from select_rows_ok [OF Inr True]
      have nf: "db_faults c Payment_students = NoFault" and d: "resp_data linksResp = Some ?q"
        by simp_all
      from assms(1) False Inr True d
      have "eligibility_steps_5_to_7 fid c name studs ?q
              [Families, Students, Payments, Payment_students] = (Inr r, log)"
        by (simp add: eligibility_step_4_def)
      from steps_5_to_7_ok [OF this] nf show ?thesis
        by (simp add: ok_run_def q)
    next
      case no: False
      with assms(1) False Inr show ?thesis
        by (auto simp: eligibility_step_4_def error_shape_error_result)
    qed
  qed
qed

lemma steps_5_to_7_distinct:
  assumes "distinct reads" "One_on_one_sessions \<notin> set reads" "Discount_codes \<notin> set reads"
  shows "distinct (snd (eligibility_steps_5_to_7 fid c name studs links reads))"
  using steps_5_to_7_reads [of fid c name studs links reads] assms by auto

lemma step_4_reads: "distinct (snd (eligibility_step_4 fid c name studs ids))"
  by (simp add: eligibility_step_4_def steps_5_to_7_distinct split: sum.splits)

lemma step_3_result:
  assumes "eligibility_step_3 fid c name studs = (Inr r, log)"
  shows "error_shape fid r
         \<or> (ok_run fid c studs (succeeded_links fid c) r
            \<and> db_faults c Payments = NoFault
            \<and> (db_faults c Payment_students = NoFault
                \<or> \<not> (\<exists>p \<in> set (db_payments c).
                         payments_family_id p = fid \<and> payments_status p = ''succeeded'')))"
proof -
  let ?q = "filter (\<lambda>p. payments_family_id p = fid \<and> payments_status p = ''succeeded'')
              (db_payments c)"
  show ?thesis
  proof (cases "select_rows (db_faults c Payments) ?q")
    case (Inl x)
    with assms show ?thesis by (simp add: eligibility_step_3_def)
  next
    case (Inr paymentsResp)
    show ?thesis
    proof (cases "resp_error paymentsResp = None")
      case True
      from select_rows_ok [OF Inr True]
      have nf: "db_faults c Payments = NoFault" and d: "resp_data paymentsResp = Some ?q"
        by simp_all
      from assms Inr True d
      have "eligibility_step_4 fid c name studs (map payments_id ?q) = (Inr r, log)"
        by (simp add: eligibility_step_3_def)
      from step_4_result [OF this refl] nf show ?thesis
        by (auto simp: filter_empty_conv)
    next
      case False
      with assms Inr show ?thesis
        by (auto simp: eligibility_step_3_def error_shape_error_result)
    qed
  qed
qed

lemma step_3_reads: "distinct (snd (eligibility_step_3 fid c name studs))"
  by (simp add: eligibility_step_3_def step_4_reads split: sum.splits)

lemma step_2_result:
  assumes "eligibility_step_2 fid c name = (Inr r, log)"
  shows "error_shape fid r
         \<or> (ok_run fid c (family_students fid c) (succeeded_links fid c) r
            \<and> db_faults c Students = NoFault
            \<and> db_faults c Payments = NoFault
            \<and> (db_faults c Payment_students = NoFault
                \<or> \<not> (\<exists>p \<in> set (db_payments c).
                         payments_family_id p = fid \<and> payments_status p = ''succeeded'')))"
proof (cases "select_rows (db_faults c Students) (family_students fid c)")
  case (Inl x)
  with assms show ?thesis by (simp add: eligibility_step_2_def family_students_def)
next
  case (Inr studentsResp)
  show ?thesis
  proof (cases "resp_error studentsResp = None")
    case True
    from select_rows_ok [OF Inr True]
    have nf: "db_faults c Students = NoFault"
      and d: "resp_data studentsResp = Some (family_students fid c)"
      by simp_all
    show ?thesis
    proof (cases "family_students fid c = []")
      case True
      with assms Inr \<open>resp_error studentsResp = None\<close> d show ?thesis
        by (auto simp: eligibility_step_2_def family_students_def error_shape_error_result)
    next
      case False
      with assms Inr True d
      have "eligibility_step_3 fid c name (family_students fid c) = (Inr r, log)"
        by (simp add: eligibility_step_2_def family_students_def)
      from step_3_result [OF this] nf show ?thesis by blast
    qed
  next
    case False
    with assms Inr show ?thesis
      by (auto simp: eligibility_step_2_def family_students_def error_shape_error_result)
  qed
qed

lemma step_2_reads: "distinct (snd (eligibility_step_2 fid c name))"
  by (simp add: eligibility_step_2_def step_3_reads split: sum.splits option.splits)

lemma try_result:
  assumes "getFamilyPaymentEligibilityData_try fid c = (Inr r, log)"
  shows "error_shape fid r
         \<or> (ok_run fid c (family_students fid c) (succeeded_links fid c) r
            \<and> db_faults c Families = NoFault
            \<and> db_faults c Students = NoFault
            \<and> db_faults c Payments = NoFault
            \<and> (db_faults c Payment_students = NoFault
                \<or> \<not> (\<exists>p \<in> set (db_payments c).
                         payments_family_id p = fid \<and> payments_status p = ''succeeded'')))"
proof (cases "select_single (db_faults c Families)
                (filter (\<lambda>f. families_id f = fid) (db_families c))")
  case (Inl x)
  with assms show ?thesis by (simp add: getFamilyPaymentEligibilityData_try_def)
next
  case (Inr familyResp)
  show ?thesis
  proof (cases "resp_error familyResp = None")
    case True
    from select_single_ok [OF Inr True] have nf: "db_faults c Families = NoFault" .
    show ?thesis
    proof (cases "resp_data familyResp")
      case None
      with assms Inr True show ?thesis
        by (auto simp: getFamilyPaymentEligibilityData_try_def error_shape_error_result)
    next
      case (Some familyData)
      with assms Inr True
      have "eligibility_step_2 fid c (families_name familyData) = (Inr r, log)"
        by (simp add: getFamilyPaymentEligibilityData_try_def)
      from step_2_result [OF this] nf show ?thesis by blast
    qed
  next
    case False
    with assms Inr show ?thesis
      by (auto simp: getFamilyPaymentEligibilityData_try_def error_shape_error_result)
  qed
qed

lemma try_reads: "distinct (snd (getFamilyPaymentEligibilityData_try fid c))"
  by (simp add: getFamilyPaymentEligibilityData_try_def step_2_reads
      split: sum.splits option.splits)

lemma ok_run_not_error_shape: "ok_run fid c studs links r \<Longrightarrow> \<not> error_shape fid r"
  by (auto simp: ok_run_def error_shape_def)

lemma getFamilyPaymentEligibilityData_result:
  "\<exists>r. fst (getFamilyPaymentEligibilityData fid c) = Inr r
     \<and> (error_shape fid r
        \<or> (ok_run fid c (family_students fid c) (succeeded_links fid c) r
           \<and> db_faults c Families = NoFault
           \<and> db_faults c Students = NoFault
           \<and> db_faults c Payments = NoFault
           \<and> (db_faults c Payment_students = NoFault
               \<or> \<not> (\<exists>p \<in> set (db_payments c).
                        payments_family_id p = fid \<and> payments_status p = ''succeeded''))))"
proof (cases "getFamilyPaymentEligibilityData_try fid c")
  case (Pair res log)
  show ?thesis
  proof (cases res)
    case (Inl x)
    with Pair show ?thesis
      by (simp add: getFamilyPaymentEligibilityData_def error_shape_error_result)
  next
    case (Inr r)
    with Pair try_result [of fid c r log] show ?thesis
      by (simp add: getFamilyPaymentEligibilityData_def)
  qed
qed

lemma getFamilyPaymentEligibilityData_reads:
  "snd (getFamilyPaymentEligibilityData fid c)
     = snd (getFamilyPaymentEligibilityData_try fid c)"
  by (simp add: getFamilyPaymentEligibilityData_def split: prod.splits sum.splits)

lemma example_sessions_run:
  "getFamilyIndividualSessions ''f1'' example_client = Inr example_sessions"
  by (simp add: getFamilyIndividualSessions_def getFamilyIndividualSessions_try_def
      select_rows_def sessions_query_def example_client_def example_sessions_def
      round_to_double_def)

lemma example_run:
  "fst (getFamilyPaymentEligibilityData ''f1'' example_client) = Inr example_result"
  by (simp add: getFamilyPaymentEligibilityData_def getFamilyPaymentEligibilityData_try_def
      eligibility_step_2_def eligibility_step_3_def eligibility_step_4_def
      eligibility_steps_5_to_7_def discounts_query_def select_single_def select_rows_def
      getFamilyIndividualSessions_def getFamilyIndividualSessions_try_def sessions_query_def
      example_client_def example_result_def example_sessions_def round_to_double_def)

lemma example_payments_down_run:
  "getFamilyPaymentEligibilityData ''f1'' example_client_payments_down =
     (Inr (error_result ''f1'' None
             ''An unexpected error occurred while loading payment information.''),
      [Families, Students, Payments])"
  by (simp add: getFamilyPaymentEligibilityData_def getFamilyPaymentEligibilityData_try_def
      eligibility_step_2_def eligibility_step_3_def select_single_def select_rows_def
      example_client_payments_down_def example_client_def)

lemma foldl_js_add:
  "\<bar>a\<bar> + sum_list (map (\<lambda>x. \<bar>f x\<bar>) xs) \<le> 9007199254740992 \<Longrightarrow>
     foldl (\<lambda>acc p. js_add acc (Num (f p))) (Num a) xs = Num (a + sum_list (map f xs))"
proof (induction xs arbitrary: a)
  case Nil
  then show ?case by simp
next
  case (Cons x xs)
  have nn: "0 \<le> sum_list (map (\<lambda>x. \<bar>f x\<bar>) xs)"
    by (rule sum_list_nonneg) auto
  from Cons.prems nn have s: "\<bar>a + f x\<bar> \<le> 9007199254740992" by simp
  from Cons.prems have "\<bar>a + f x\<bar> + sum_list (map (\<lambda>x. \<bar>f x\<bar>) xs) \<le> 9007199254740992"
    by simp
  from Cons.IH [OF this] s show ?case
    by (simp add: round_to_double_def add.assoc)
qed

lemma sum_list_sessions_query:
  "sum_list (map f (sessions_query fid c))
     = sum_list (map f (filter (\<lambda>s. sessions_family_id s = fid) (db_one_on_one_sessions c)))"
  for f :: "session_row \<Rightarrow> int"
proof -
  have "mset (sessions_query fid c)
          = mset (filter (\<lambda>s. sessions_family_id s = fid) (db_one_on_one_sessions c))"
    by (simp add: sessions_query_def)
  then have "mset (map f (sessions_query fid c))
          = mset (map f (filter (\<lambda>s. sessions_family_id s = fid) (db_one_on_one_sessions c)))"
    by simp
  then show ?thesis
    by (metis sum_mset_sum_list)
qed

lemma sessions_total:
  assumes "sum_list (map (\<lambda>s. \<bar>f s\<bar>)
             (filter (\<lambda>s. sessions_family_id s = fid) (db_one_on_one_sessions c)))
           \<le> 9007199254740992"
  shows "foldl (\<lambda>acc p. js_add acc (Num (f p))) (Num 0) (sessions_query fid c)
     = Num (sum_list (map f
         (filter (\<lambda>s. sessions_family_id s = fid) (db_one_on_one_sessions c))))"
proof -
  from assms have "\<bar>0\<bar> + sum_list (map (\<lambda>s. \<bar>f s\<bar>) (sessions_query fid c))
      \<le> 9007199254740992"
    by (simp add: sum_list_sessions_query)
  from foldl_js_add [OF this] show ?thesis
    by (simp add: sum_list_sessions_query)
qed

lemma js_add_rounds_from_2_53:
  "js_add (Num 9007199254740992) (Num 1) = Num 9007199254740992"
  by code_simp

lemma getFamilyIndividualSessions_returns:
  "\<exists>info. getFamilyIndividualSessions fid c = Inr info"
  by (simp add: getFamilyIndividualSessions_def split: sum.splits)

lemma student_details_total:
  "\<forall>s\<in>set studs. \<not> isl (checkStudentEligibility c (students_id s)) \<Longrightarrow>
     \<exists>ds. student_details c links info studs = Inr ds"
proof (induction studs)
  case Nil
  then show ?case by simp
next
  case (Cons s studs)
  then obtain ds where "student_details c links info studs = Inr ds" by auto
  moreover from Cons.prems obtain st where "checkStudentEligibility c (students_id s) = Inr st"
    by (cases "checkStudentEligibility c (students_id s)") auto
  ultimately show ?case by simp
qed

lemma steps_5_to_7_success:
  assumes "\<forall>s\<in>set studs. \<not> isl (checkStudentEligibility c (students_id s))"
    and "\<forall>x. db_faults c Discount_codes \<noteq> Throws x"
  shows "\<exists>r log. eligibility_steps_5_to_7 fid c name studs links reads = (Inr r, log)
           \<and> error r = None"
proof -
  obtain info where i: "getFamilyIndividualSessions fid c = Inr info"
    using getFamilyIndividualSessions_returns by blast
  obtain ds where d: "student_details c links info studs = Inr ds"
    using student_details_total [OF assms(1)] by blast
  from assms(2) obtain resp where
    "select_rows (db_faults c Discount_codes) (discounts_query fid c) = Inr resp"
    by (cases "db_faults c Discount_codes") (auto simp: select_rows_def)
  with i d show ?thesis
    by (simp add: eligibility_steps_5_to_7_def)
qed

lemma step_4_success:
  assumes "\<forall>s\<in>set studs. \<not> isl (checkStudentEligibility c (students_id s))"
    and "\<forall>x. db_faults c Discount_codes \<noteq> Throws x"
    and "db_faults c Payment_students = NoFault \<or> ids = []"
  shows "\<exists>r log. eligibility_step_4 fid c name studs ids = (Inr r, log) \<and> error r = None"
proof (cases "ids = []")
  case True
  with steps_5_to_7_success [OF assms(1,2)] show ?thesis
    by (simp add: eligibility_step_4_def)
next
  case False
  with assms(3) have "db_faults c Payment_students = NoFault" by simp
  with False steps_5_to_7_success [OF assms(1,2)] show ?thesis
    by (simp add: eligibility_step_4_def select_rows_def)
qed

lemma step_3_success:
  assumes "\<forall>s\<in>set studs. \<not> isl (checkStudentEligibility c (students_id s))"
    and "\<forall>x. db_faults c Discount_codes \<noteq> Throws x"
    and "db_faults c Payments = NoFault"
    and "db_faults c Payment_students = NoFault
         \<or> \<not> (\<exists>p \<in> set (db_payments c).
                 payments_family_id p = fid \<and> payments_status p = ''succeeded'')"
  shows "\<exists>r log. eligibility_step_3 fid c name studs = (Inr r, log) \<and> error r = None"
proof -
  let ?ids = "map payments_id
     (filter (\<lambda>p. payments_family_id p = fid \<and> payments_status p = ''succeeded'')
        (db_payments c))"
  from assms(4) have "db_faults c Payment_students = NoFault \<or> ?ids = []"
    by (auto simp: filter_empty_conv)
  from step_4_success [OF assms(1,2) this] assms(3) show ?thesis
    by (simp add: eligibility_step_3_def select_rows_def)
qed

lemma step_2_success:
  assumes "\<forall>s\<in>set (family_students fid c). \<not> isl (checkStudentEligibility c (students_id s))"
    and "\<forall>x. db_faults c Discount_codes \<noteq> Throws x"
    and "db_faults c Payments = NoFault"
    and "db_faults c Payment_students = NoFault
         \<or> \<not> (\<exists>p \<in> set (db_payments c).
                 payments_family_id p = fid \<and> payments_status p = ''succeeded'')"
    and "db_faults c Students = NoFault"
    and "family_students fid c \<noteq> []"
  shows "\<exists>r log. eligibility_step_2 fid c name = (Inr r, log) \<and> error r = None"
  using step_3_success [OF assms(1-4)] assms(5,6)
  by (simp add: eligibility_step_2_def select_rows_def family_students_def)

lemma getFamilyPaymentEligibilityData_success:
  assumes "db_faults c Families = NoFault"
    and "length (filter (\<lambda>f. families_id f = fid) (db_families c)) = 1"
    and "db_faults c Students = NoFault"
    and "family_students fid c \<noteq> []"
    and "db_faults c Payments = NoFault"
    and "db_faults c Payment_students = NoFault
         \<or> \<not> (\<exists>p \<in> set (db_payments c).
                 payments_family_id p = fid \<and> payments_status p = ''succeeded'')"
    and "\<forall>s\<in>set (family_students fid c). \<not> isl (checkStudentEligibility c (students_id s))"
    and "\<forall>x. db_faults c Discount_codes \<noteq> Throws x"
  shows "\<exists>r. fst (getFamilyPaymentEligibilityData fid c) = Inr r \<and> error r = None"
proof -
  from assms(2) obtain f where f: "filter (\<lambda>f. families_id f = fid) (db_families c) = [f]"
    by (cases "filter (\<lambda>f. families_id f = fid) (db_families c)") auto
  from step_2_success [OF assms(7,8,5,6,3,4), of "families_name f"]
  obtain r log where "eligibility_step_2 fid c (families_name f) = (Inr r, log)"
    and "error r = None"
    by blast
  with assms(1) f show ?thesis
    by (simp add: getFamilyPaymentEligibilityData_def getFamilyPaymentEligibilityData_try_def
        select_single_def)
qed

lemma all_reads_succeed_result:
  assumes "all_reads_succeed fid c"
  shows "\<exists>r. fst (getFamilyPaymentEligibilityData fid c) = Inr r \<and> error r = None"
proof (rule getFamilyPaymentEligibilityData_success)
  from assms show "\<forall>x. db_faults c Discount_codes \<noteq> Throws x"
    by (auto simp: all_reads_succeed_def split: fault.splits)
qed (use assms in \<open>auto simp: all_reads_succeed_def list_ex_iff list_all_iff\<close>)

lemma student_details_maps:
  "student_details c links info studs = Inr ds \<Longrightarrow>
     map needsPayment ds
       = map (\<lambda>s. case checkStudentEligibility c (students_id s) of
                    Inl x \<Rightarrow> False
                  | Inr status \<Rightarrow> reason status = ''Trial'' \<or> reason status = ''Expired'') studs
     \<and> map pastPaymentCount ds
       = map (\<lambda>s. length (filter (\<lambda>l. link_student_id l = students_id s) links)) studs"
proof (induction studs arbitrary: ds)
  case Nil
  then show ?case by simp
next
  case (Cons s studs)
  then show ?case by (auto split: sum.splits)
qed

lemma succeeded_links_count:
  "length (filter (\<lambda>l. link_student_id l = sid) (succeeded_links fid c))
      = length (filter (\<lambda>l. link_student_id l = sid
                                \<and> (\<exists>p \<in> set (db_payments c).
                                      payments_id p = link_payment_id l
                                      \<and> payments_family_id p = fid
                                      \<and> payments_status p = ''succeeded''))
                        (db_payment_students c))"
  unfolding succeeded_links_def filter_filter
  by (rule arg_cong [where f = length], rule filter_cong) auto

lemma updateProgram_NoFault_result:
  "matching ''id'' (JStr i) t = [row] \<Longrightarrow>
     fst (updateProgram i u now NoFault t) = Inr (Some (row ++ program_updateData now u))"
  by (simp add: updateProgram_def client_update_single_def)

lemma updateProgram_thrown_table:
  "fst (updateProgram i u now f t) = Inl x \<Longrightarrow> snd (updateProgram i u now f t) = t"
  by (auto simp: updateProgram_def client_update_single_def
      split: fault.splits list.splits option.splits)

lemma apply_update_rows:
  "list_all2 (\<lambda>r r'. r' = (if r col = Some v then r ++ p else r)) t (apply_update p col v t)"
  by (simp add: apply_update_def list_all2_conv_all_nth)

lemma unknown_id_update_outcome:
  "(\<not> missing (Some fid) \<and> family_fieldErrors formData = [] \<and> configured e
      \<and> matching ''id'' (JStr fid) families = [] \<longrightarrow>
     family_edit_action e (Some fid) formData now f families =
       (case f of
          NoFault \<Rightarrow> Inr (Redirect (''/admin/families/'' @ fid))
        | Fails err \<Rightarrow> Inr (error_json 500 (''Database error: '' @ message err))
        | Throws x \<Rightarrow> Inl x,
        families))
   \<and> (\<not> missing (Some sid) \<and> sform ''intent'' = Some ''edit''
      \<and> student_fieldErrors (student_updateData sform) = [] \<and> configured e
      \<and> matching ''id'' (JStr sid) students = [] \<longrightarrow>
     student_edit_action e (Some sid) sform g students =
       (case g of
          NoFault \<Rightarrow> Inr success_json
        | Fails err \<Rightarrow>
            Inr (error_json 500 (''Failed to update student: '' @ errorMessage (thrown_of err)))
        | Throws x \<Rightarrow> Inr (error_json 500 (''Failed to update student: '' @ errorMessage x)),
        students))"
  by (auto simp: family_edit_action_def student_edit_action_def configured_def
      client_update_def apply_update_none success_json_def error_json_def Let_def
      split: fault.splits)

section \<open>Properties\<close>

text \<open>
  C1. \<open>getFamilyPaymentEligibilityData\<close> always returns. In every student detail of its
  result \<open>needsPayment\<close> is true exactly when the eligibility computed for that student
  has reason \<open>Trial\<close> or \<open>Expired\<close>, and false for every other reason. In a run in which
  nothing fails the result carries no error and has one detail for each student of the
  family, in their order, with the flag computed from that student's eligibility.
\<close>

theorem needsPayment_iff_trial_or_expired:
  "\<exists>r. fst (getFamilyPaymentEligibilityData fid c) = Inr r
     \<and> (\<forall>d \<in> set (studentPaymentDetails r).
          checkStudentEligibility c (studentId d) = Inr (eligibility d)
          \<and> (needsPayment d
               \<longleftrightarrow> reason (eligibility d) = ''Trial'' \<or> reason (eligibility d) = ''Expired''))
     \<and> (error r = None \<longrightarrow>
          map studentId (studentPaymentDetails r) = map students_id (family_students fid c))
     \<and> (all_reads_succeed fid c \<longrightarrow>
          error r = None
          \<and> map studentId (studentPaymentDetails r) = map students_id (family_students fid c)
          \<and> map needsPayment (studentPaymentDetails r)
              = map (\<lambda>s. case checkStudentEligibility c (students_id s) of
                           Inl x \<Rightarrow> False
                         | Inr status \<Rightarrow> reason status = ''Trial'' \<or> reason status = ''Expired'')
                  (family_students fid c))"
proof -
  from getFamilyPaymentEligibilityData_result [of fid c]
  obtain r where r: "fst (getFamilyPaymentEligibilityData fid c) = Inr r"
    and alt: "error_shape fid r
              \<or> ok_run fid c (family_students fid c) (succeeded_links fid c) r"
    by blast
  from all_reads_succeed_result [of fid c] r
  have ok: "error r = None" if "all_reads_succeed fid c"
    using that by auto
  from alt show ?thesis
  proof
    assume e: "error_shape fid r"
    then have "\<not> all_reads_succeed fid c"
      using ok by (auto simp: error_shape_def)
    with r e show ?thesis by (auto simp: error_shape_def)
  next
    assume "ok_run fid c (family_students fid c) (succeeded_links fid c) r"
    then obtain info where sd:
      "student_details c (succeeded_links fid c) info (family_students fid c)
         = Inr (studentPaymentDetails r)"
      and "error r = None"
      by (auto simp: ok_run_def)
    from student_details_ok [OF sd] student_details_maps [OF sd] r \<open>error r = None\<close>
    show ?thesis by auto
  qed
qed

theorem needsPayment_iff_trial_or_expired_witness:
  "all_reads_succeed ''f1'' example_client
   \<and> error (projr (fst (getFamilyPaymentEligibilityData ''f1'' example_client))) = None
   \<and> map studentId
        (studentPaymentDetails (projr (fst (getFamilyPaymentEligibilityData ''f1'' example_client))))
       = [''s1'', ''s2'']
   \<and> map needsPayment
        (studentPaymentDetails (projr (fst (getFamilyPaymentEligibilityData ''f1'' example_client))))
       = [True, False]"
proof -
  have a: "all_reads_succeed ''f1'' example_client"
    by (simp add: all_reads_succeed_def family_students_def example_client_def)
  have fs: "family_students ''f1'' example_client
     = [\<lparr>students_id = ''s1'', students_first_name = ''Ann'', students_last_name = ''Lee'',
          students_family_id = Some ''f1''\<rparr>,
        \<lparr>students_id = ''s2'', students_first_name = ''Ben'', students_last_name = ''Lee'',
          students_family_id = Some ''f1''\<rparr>]"
    by (simp add: family_students_def example_client_def)
  have ch: "checkStudentEligibility example_client ''s1'' = Inr \<lparr>reason = ''Trial''\<rparr>"
    "checkStudentEligibility example_client ''s2'' = Inr \<lparr>reason = ''Paid - Monthly''\<rparr>"
    by (simp_all add: example_client_def)
  from needsPayment_iff_trial_or_expired [of "''f1''" example_client] a
  show ?thesis by (auto simp: fs ch)
qed

text \<open>
  C2. In every student detail of the result, \<open>pastPaymentCount\<close> is the number of
  payment-student links of that student whose payment is a payment of the family with
  status \<open>succeeded\<close>; links of payments in another status, or of another family, are not
  counted. In a run in which nothing fails the result carries no error and has one detail
  for each student of the family, in their order, with that student's count.
\<close>

theorem pastPaymentCount_counts_succeeded_links:
  "\<exists>r. fst (getFamilyPaymentEligibilityData fid c) = Inr r
     \<and> (\<forall>d \<in> set (studentPaymentDetails r).
          pastPaymentCount d
            = length (filter (\<lambda>l. link_student_id l = studentId d
                                \<and> (\<exists>p \<in> set (db_payments c).
                                      payments_id p = link_payment_id l
                                      \<and> payments_family_id p = fid
                                      \<and> payments_status p = ''succeeded''))
                        (db_payment_students c)))
     \<and> (error r = None \<longrightarrow>
          map studentId (studentPaymentDetails r) = map students_id (family_students fid c))
     \<and> (all_reads_succeed fid c \<longrightarrow>
          error r = None
          \<and> map studentId (studentPaymentDetails r) = map students_id (family_students fid c)
          \<and> map pastPaymentCount (studentPaymentDetails r)
              = map (\<lambda>s. length (filter (\<lambda>l. link_student_id l = students_id s
                                \<and> (\<exists>p \<in> set (db_payments c).
                                      payments_id p = link_payment_id l
                                      \<and> payments_family_id p = fid
                                      \<and> payments_status p = ''succeeded''))
                        (db_payment_students c)))
                  (family_students fid c))"
proof -
  from getFamilyPaymentEligibilityData_result [of fid c]
  obtain r where r: "fst (getFamilyPaymentEligibilityData fid c) = Inr r"
    and alt: "error_shape fid r
              \<or> ok_run fid c (family_students fid c) (succeeded_links fid c) r"
    by blast
  from all_reads_succeed_result [of fid c] r
  have ok: "error r = None" if "all_reads_succeed fid c"
    using that by auto
  from alt show ?thesis
  proof
    assume e: "error_shape fid r"
    then have "\<not> all_reads_succeed fid c"
      using ok by (auto simp: error_shape_def)
    with r e show ?thesis by (auto simp: error_shape_def)
  next
    assume "ok_run fid c (family_students fid c) (succeeded_links fid c) r"
    then obtain info where sd:
      "student_details c (succeeded_links fid c) info (family_students fid c)
         = Inr (studentPaymentDetails r)"
      and "error r = None"
      by (auto simp: ok_run_def)
    from student_details_ok [OF sd] student_details_maps [OF sd] r \<open>error r = None\<close>
    show ?thesis by (auto simp: succeeded_links_count)
  qed
qed

theorem pastPaymentCount_counts_succeeded_links_witness:
  "all_reads_succeed ''f1'' example_client
   \<and> error (projr (fst (getFamilyPaymentEligibilityData ''f1'' example_client))) = None
   \<and> map studentId
        (studentPaymentDetails (projr (fst (getFamilyPaymentEligibilityData ''f1'' example_client))))
       = [''s1'', ''s2'']
   \<and> map pastPaymentCount
        (studentPaymentDetails (projr (fst (getFamilyPaymentEligibilityData ''f1'' example_client))))
       = [1, 0]"
proof -
  have a: "all_reads_succeed ''f1'' example_client"
    by (simp add: all_reads_succeed_def family_students_def example_client_def)
  have fs: "family_students ''f1'' example_client
     = [\<lparr>students_id = ''s1'', students_first_name = ''Ann'', students_last_name = ''Lee'',
          students_family_id = Some ''f1''\<rparr>,
        \<lparr>students_id = ''s2'', students_first_name = ''Ben'', students_last_name = ''Lee'',
          students_family_id = Some ''f1''\<rparr>]"
    by (simp add: family_students_def example_client_def)
  have l1: "length (filter (\<lambda>l. link_student_id l = ''s1''
                \<and> (\<exists>p \<in> set (db_payments example_client).
                      payments_id p = link_payment_id l \<and> payments_family_id p = ''f1''
                      \<and> payments_status p = ''succeeded''))
              (db_payment_students example_client)) = 1"
    by (simp add: example_client_def)
  have l2: "length (filter (\<lambda>l. link_student_id l = ''s2''
                \<and> (\<exists>p \<in> set (db_payments example_client).
                      payments_id p = link_payment_id l \<and> payments_family_id p = ''f1''
                      \<and> payments_status p = ''succeeded''))
              (db_payment_students example_client)) = 0"
    by (simp add: example_client_def)
  from pastPaymentCount_counts_succeeded_links [of "''f1''" example_client] a
  show ?thesis by (auto simp: fs l1 l2)
qed

text \<open>
  C3. \<open>getFamilyPaymentEligibilityData\<close> never throws and reads no table twice. When the
  read of the family, of the students or of the payments fails, when the read of the
  payment-student links fails (it is made only if the family has a successful payment),
  when \<open>checkStudentEligibility\<close> throws for a student of the family, or when the read of
  the discount codes throws, the result has a non-empty error message, no student details
  and no available discounts.
\<close>

theorem getFamilyPaymentEligibilityData_failure:
  "\<exists>r. fst (getFamilyPaymentEligibilityData fid c) = Inr r
     \<and> distinct (snd (getFamilyPaymentEligibilityData fid c))
     \<and> (db_faults c Families \<noteq> NoFault \<or> db_faults c Students \<noteq> NoFault
        \<or> db_faults c Payments \<noteq> NoFault
        \<or> (db_faults c Payment_students \<noteq> NoFault
            \<and> (\<exists>p \<in> set (db_payments c).
                  payments_family_id p = fid \<and> payments_status p = ''succeeded''))
        \<or> (\<exists>s \<in> set (family_students fid c). isl (checkStudentEligibility c (students_id s)))
        \<or> (\<exists>x. db_faults c Discount_codes = Throws x)
        \<longrightarrow> (\<exists>msg. error r = Some msg \<and> msg \<noteq> []) \<and> studentPaymentDetails r = []
            \<and> \<not> hasAvailableDiscounts r)"
proof -
  from getFamilyPaymentEligibilityData_result [of fid c]
  obtain r where r: "fst (getFamilyPaymentEligibilityData fid c) = Inr r"
    and alt: "error_shape fid r
        \<or> (ok_run fid c (family_students fid c) (succeeded_links fid c) r
           \<and> db_faults c Families = NoFault
           \<and> db_faults c Students = NoFault
           \<and> db_faults c Payments = NoFault
           \<and> (db_faults c Payment_students = NoFault
               \<or> \<not> (\<exists>p \<in> set (db_payments c).
                        payments_family_id p = fid \<and> payments_status p = ''succeeded'')))"
    by blast
  have reads: "distinct (snd (getFamilyPaymentEligibilityData fid c))"
    by (simp add: getFamilyPaymentEligibilityData_reads try_reads)
  from alt show ?thesis
  proof
    assume "error_shape fid r"
    with r reads show ?thesis by (auto simp: error_shape_def)
  next
    assume ok: "ok_run fid c (family_students fid c) (succeeded_links fid c) r
           \<and> db_faults c Families = NoFault
           \<and> db_faults c Students = NoFault
           \<and> db_faults c Payments = NoFault
           \<and> (db_faults c Payment_students = NoFault
               \<or> \<not> (\<exists>p \<in> set (db_payments c).
                        payments_family_id p = fid \<and> payments_status p = ''succeeded''))"
    then obtain info where sd:
      "student_details c (succeeded_links fid c) info (family_students fid c)
         = Inr (studentPaymentDetails r)"
      and nd: "\<forall>x. db_faults c Discount_codes \<noteq> Throws x"
      by (auto simp: ok_run_def)
    from student_details_ok [OF sd]
    have "\<forall>s\<in>set (family_students fid c). \<not> isl (checkStudentEligibility c (students_id s))"
      by blast
    with ok nd r reads show ?thesis by blast
  qed
qed

theorem getFamilyPaymentEligibilityData_failure_witness:
  "db_faults example_client_payments_down Payments \<noteq> NoFault
   \<and> fst (getFamilyPaymentEligibilityData ''f1'' example_client_payments_down)
       = Inr (error_result ''f1'' None
                ''An unexpected error occurred while loading payment information.'')
   \<and> studentPaymentDetails
        (projr (fst (getFamilyPaymentEligibilityData ''f1'' example_client_payments_down))) = []
   \<and> snd (getFamilyPaymentEligibilityData ''f1'' example_client_payments_down)
       = [Families, Students, Payments]"
proof -
  have h: "db_faults example_client_payments_down Payments \<noteq> NoFault"
    by (simp add: example_client_payments_down_def)
  from getFamilyPaymentEligibilityData_failure [of "''f1''" example_client_payments_down] h
  have "studentPaymentDetails
        (projr (fst (getFamilyPaymentEligibilityData ''f1'' example_client_payments_down))) = []"
    by auto
  with h show ?thesis by (simp add: example_payments_down_run)
qed

text \<open>
  C4, as the code has it. A database error met by \<open>createProgram\<close>, \<open>updateProgram\<close>,
  \<open>getPrograms\<close> or \<open>getProgramById\<close> is not turned into a returned object: each function
  throws an \<open>Error\<close> whose message is its own prefix followed by the database message, and
  nothing is written. Only \<open>getProgramById\<close> returns a value, \<open>null\<close>, and only for the
  error code \<open>PGRST116\<close> (not found).
\<close>

theorem program_service_db_error_thrown:
  "fst (createProgram programData generated (Fails err) programs)
       = Inl (JsError (''Failed to create program: '' @ message err))
   \<and> snd (createProgram programData generated (Fails err) programs) = programs
   \<and> fst (updateProgram ident updates now (Fails err) programs)
       = Inl (JsError (''Failed to update program: '' @ message err))
   \<and> snd (updateProgram ident updates now (Fails err) programs) = programs
   \<and> getPrograms filters (\<lambda>q. Inr \<lparr>resp_data = d, resp_error = Some err\<rparr>)
       = Inl (JsError (''Failed to fetch programs: '' @ message err))
   \<and> getProgramById ident (Fails err) programs
       = (if code err = ''PGRST116'' then Inr None
          else Inl (JsError (''Failed to fetch program: '' @ message err)))"
  by (simp add: createProgram_def client_insert_single_def updateProgram_def
      client_update_single_def getPrograms_def getProgramById_def client_select_single_def)

text \<open>C4 as stated fails: a database error met by \<open>createProgram\<close> reaches the caller as a
  thrown \<open>Error\<close>.\<close>

theorem createProgram_db_error_counterexample:
  "fst (createProgram [''name'' \<mapsto> JStr ''Kids Karate''] [''id'' \<mapsto> JStr ''p2'']
          (Fails example_db_error) example_programs)
     = Inl (JsError ''Failed to create program: duplicate key value'')"
  by (simp add: createProgram_def client_insert_single_def example_db_error_def)

text \<open>
  C5. An update request whose id identifies no stored record is to be rejected with an
  error response. The two edit actions do not look the record up and test only the error
  of the update, which an update that selects no row does not set: for the family id
  \<open>f9\<close> and the student id \<open>s9\<close>, which no stored row has, a complete form and a
  database that answers without error, the family edit action redirects to the family
  page and the student edit action reports success, and no stored row is changed.
\<close>

theorem update_unknown_id_reports_success:
  "matching ''id'' (JStr ''f9'') example_families = []
   \<and> family_edit_action example_env (Some ''f9'') example_form ''2024-01-01T00:00:00.000Z''
        NoFault example_families
       = (Inr (Redirect ''/admin/families/f9''), example_families)
   \<and> matching ''id'' (JStr ''s9'') example_students = []
   \<and> student_edit_action example_env (Some ''s9'') example_student_form NoFault example_students
       = (Inr success_json, example_students)"
  by (simp add: matching_def example_families_def example_students_def
      family_edit_action_def student_edit_action_def example_env_def example_form_def
      example_student_form_def missing_def family_fieldErrors_def student_fieldErrors_def
      student_updateData_def object_literal_def falsy_member_def js_of_def or_null_def
      require_def client_update_def apply_update_def success_json_def)

text \<open>
  C6. A family edit submission in which a required field (name, email, address, city,
  province, postal_code, primary_phone) is missing is answered with status 400 and the
  field errors of exactly the missing required fields, each with its own message, and the
  stored families are unchanged, whatever the database would have done.
\<close>

theorem family_edit_missing_required_field:
  assumes "\<not> missing params_familyId"
    and "\<exists>k \<in> set (map fst family_required_fields). missing (formData k)"
  shows "family_edit_action e params_familyId formData now f families =
           (Inr (Json 400 \<lparr>ad_success = None, ad_message = None,
                           ad_error = Some ''Validation failed'',
                           ad_fieldErrors =
                             Some (filter (\<lambda>(k, msg). missing (formData k))
                                     family_required_fields)\<rparr>),
            families)"
proof -
  from assms(2) have "filter (\<lambda>(k, msg). missing (formData k)) family_required_fields \<noteq> []"
    by (auto simp: filter_empty_conv)
  then show ?thesis
    using assms(1) by (simp add: family_edit_action_def family_fieldErrors_filter)
qed

theorem family_edit_missing_required_field_witness:
  "\<not> missing (Some ''f1'')
   \<and> missing (example_incomplete_form ''city'')
   \<and> family_edit_action example_env (Some ''f1'') example_incomplete_form
        ''2024-01-01T00:00:00.000Z'' NoFault example_families =
       (Inr (Json 400 \<lparr>ad_success = None, ad_message = None,
                       ad_error = Some ''Validation failed'',
                       ad_fieldErrors = Some [(''name'', ''Family name is required.''),
                                              (''city'', ''City is required.'')]\<rparr>),
        example_families)"
proof -
  have a: "\<not> missing (Some ''f1'')" by (simp add: missing_def)
  have m: "missing (example_incomplete_form ''city'')"
    by (simp add: example_incomplete_form_def missing_def)
  have b: "\<exists>k \<in> set (map fst family_required_fields). missing (example_incomplete_form k)"
    using m by (auto simp: family_required_fields_def)
  have c: "filter (\<lambda>(k, msg). missing (example_incomplete_form k)) family_required_fields
             = [(''name'', ''Family name is required.''), (''city'', ''City is required.'')]"
    by (simp add: family_required_fields_def example_incomplete_form_def example_form_def
        missing_def)
  from family_edit_missing_required_field [OF a b, of example_env "''2024-01-01T00:00:00.000Z''"
      NoFault example_families]
  show ?thesis using a m c by simp
qed

text \<open>
  C7, as the code has it. After a first application that succeeded, a second application
  of the same update (\<open>updateProgram\<close>, or the family edit action) leaves every column of
  every stored row as it was after the first, except \<open>updated_at\<close>; when the second
  application goes through, the row of that id holds the time of the second call in
  \<open>updated_at\<close>.
\<close>

theorem repeated_update_keeps_other_fields:
  "(fst (updateProgram ident updates now1 f1 programs) = Inr r1 \<longrightarrow>
      list_all2 (\<lambda>r r'. \<forall>k. k \<noteq> ''updated_at'' \<longrightarrow> r' k = r k)
        (snd (updateProgram ident updates now1 f1 programs))
        (snd (updateProgram ident updates now2 f2
               (snd (updateProgram ident updates now1 f1 programs))))
      \<and> (f2 = NoFault \<longrightarrow>
           (\<forall>r' \<in> set (snd (updateProgram ident updates now2 f2
                              (snd (updateProgram ident updates now1 f1 programs)))).
              r' ''id'' = Some (JStr ident) \<longrightarrow> r' ''updated_at'' = Some (JStr now2))))
   \<and> (fst (family_edit_action e params_familyId formData now1 g1 families) = Inr (Redirect loc) \<longrightarrow>
      list_all2 (\<lambda>r r'. \<forall>k. k \<noteq> ''updated_at'' \<longrightarrow> r' k = r k)
        (snd (family_edit_action e params_familyId formData now1 g1 families))
        (snd (family_edit_action e params_familyId formData now2 g2
               (snd (family_edit_action e params_familyId formData now1 g1 families))))
      \<and> (g2 = NoFault \<longrightarrow>
           (\<forall>r' \<in> set (snd (family_edit_action e params_familyId formData now2 g2
                              (snd (family_edit_action e params_familyId formData now1 g1
                                      families)))).
              r' ''id'' = Some (JStr (the params_familyId)) \<longrightarrow>
              r' ''updated_at'' = Some (JStr now2))))"
proof (intro conjI impI)
  assume ok: "fst (updateProgram ident updates now1 f1 programs) = Inr r1"
  let ?p1 = "program_updateData now1 updates" and ?p2 = "program_updateData now2 updates"
  let ?t1 = "snd (updateProgram ident updates now1 f1 programs)"
  have t1: "?t1 = apply_update ?p1 ''id'' (JStr ident) programs"
    using ok by (rule updateProgram_ok_table)
  have agree: "\<forall>k. k \<noteq> ''updated_at'' \<longrightarrow> ?p2 k = ?p1 k"
    by (simp add: program_updateData_apply)
  have "list_all2 (\<lambda>r r'. \<forall>k. k \<noteq> ''updated_at'' \<longrightarrow> r' k = r k)
          ?t1 (apply_update ?p2 ''id'' (JStr ident) ?t1)"
    unfolding t1 using agree program_updateData_id by (rule apply_update_again)
  then show "list_all2 (\<lambda>r r'. \<forall>k. k \<noteq> ''updated_at'' \<longrightarrow> r' k = r k)
          ?t1 (snd (updateProgram ident updates now2 f2 ?t1))"
    using updateProgram_table [of ident updates now2 f2 ?t1] list_all2_agree_refl [of _ ?t1]
    by auto
  assume nf: "f2 = NoFault"
  have "length (matching ''id'' (JStr ident) ?t1) = 1"
    unfolding t1 using updateProgram_ok_matching [OF ok]
    by (simp add: matching_apply_update program_updateData_id)
  then have "snd (updateProgram ident updates now2 f2 ?t1)
               = apply_update ?p2 ''id'' (JStr ident) ?t1"
    unfolding nf by (rule updateProgram_NoFault_table)
  then show "\<forall>r' \<in> set (snd (updateProgram ident updates now2 f2 ?t1)).
               r' ''id'' = Some (JStr ident) \<longrightarrow> r' ''updated_at'' = Some (JStr now2)"
    using apply_update_sets [OF program_updateData_id [of now2 updates]
        program_updateData_updated_at [of now2 updates], of "JStr ident" ?t1]
    by simp
next
  assume ok: "fst (family_edit_action e params_familyId formData now1 g1 families)
                = Inr (Redirect loc)"
  let ?p1 = "family_update_payload formData now1" and ?p2 = "family_update_payload formData now2"
  let ?t1 = "snd (family_edit_action e params_familyId formData now1 g1 families)"
  let ?v = "JStr (the params_familyId)"
  have t1: "?t1 = apply_update ?p1 ''id'' ?v families"
    using ok by (rule family_edit_action_ok_table)
  have agree: "\<forall>k. k \<noteq> ''updated_at'' \<longrightarrow> ?p2 k = ?p1 k"
    by (simp add: family_update_payload_apply)
  have "list_all2 (\<lambda>r r'. \<forall>k. k \<noteq> ''updated_at'' \<longrightarrow> r' k = r k)
          ?t1 (apply_update ?p2 ''id'' ?v ?t1)"
    unfolding t1 using agree family_update_payload_id by (rule apply_update_again)
  then show "list_all2 (\<lambda>r r'. \<forall>k. k \<noteq> ''updated_at'' \<longrightarrow> r' k = r k)
          ?t1 (snd (family_edit_action e params_familyId formData now2 g2 ?t1))"
    using family_edit_action_table [of e params_familyId formData now2 g2 ?t1]
      list_all2_agree_refl [of _ ?t1]
    by auto
  assume nf: "g2 = NoFault"
  have "snd (family_edit_action e params_familyId formData now2 g2 ?t1)
          = apply_update ?p2 ''id'' ?v ?t1"
    unfolding nf using ok by (rule family_edit_action_NoFault_table)
  then show "\<forall>r' \<in> set (snd (family_edit_action e params_familyId formData now2 g2 ?t1)).
               r' ''id'' = Some ?v \<longrightarrow> r' ''updated_at'' = Some (JStr now2)"
    using apply_update_sets [OF family_update_payload_id [of formData now2]
        family_update_payload_updated_at [of formData now2], of ?v ?t1]
    by simp
qed

theorem repeated_update_keeps_other_fields_witness:
  "\<not> isl (fst (updateProgram ''p1'' [''name'' \<mapsto> JStr ''Teens''] ''2024-01-01T00:00:00.000Z''
              NoFault example_programs))
   \<and> list_all2 (\<lambda>r r'. \<forall>k. k \<noteq> ''updated_at'' \<longrightarrow> r' k = r k)
        (snd (updateProgram ''p1'' [''name'' \<mapsto> JStr ''Teens''] ''2024-01-01T00:00:00.000Z''
               NoFault example_programs))
        (snd (updateProgram ''p1'' [''name'' \<mapsto> JStr ''Teens''] ''2024-01-02T00:00:00.000Z''
               NoFault
               (snd (updateProgram ''p1'' [''name'' \<mapsto> JStr ''Teens'']
                      ''2024-01-01T00:00:00.000Z'' NoFault example_programs))))
   \<and> fst (family_edit_action example_env (Some ''f1'') example_form
            ''2024-01-01T00:00:00.000Z'' NoFault example_families)
       = Inr (Redirect ''/admin/families/f1'')
   \<and> list_all2 (\<lambda>r r'. \<forall>k. k \<noteq> ''updated_at'' \<longrightarrow> r' k = r k)
        (snd (family_edit_action example_env (Some ''f1'') example_form
               ''2024-01-01T00:00:00.000Z'' NoFault example_families))
        (snd (family_edit_action example_env (Some ''f1'') example_form
               ''2024-01-02T00:00:00.000Z'' NoFault
               (snd (family_edit_action example_env (Some ''f1'') example_form
                      ''2024-01-01T00:00:00.000Z'' NoFault example_families))))"
proof -
  have p: "\<not> isl (fst (updateProgram ''p1'' [''name'' \<mapsto> JStr ''Teens'']
              ''2024-01-01T00:00:00.000Z'' NoFault example_programs))"
    by (simp add: updateProgram_def client_update_single_def matching_def
        example_programs_def)
  then obtain r1 where p': "fst (updateProgram ''p1'' [''name'' \<mapsto> JStr ''Teens'']
              ''2024-01-01T00:00:00.000Z'' NoFault example_programs) = Inr r1"
    by (cases "fst (updateProgram ''p1'' [''name'' \<mapsto> JStr ''Teens'']
              ''2024-01-01T00:00:00.000Z'' NoFault example_programs)") auto
  have q: "fst (family_edit_action example_env (Some ''f1'') example_form
            ''2024-01-01T00:00:00.000Z'' NoFault example_families)
       = Inr (Redirect ''/admin/families/f1'')"
    by (simp add: family_edit_action_def example_env_def example_form_def missing_def
        family_fieldErrors_def require_def client_update_def Let_def)
  from repeated_update_keeps_other_fields
    [of "''p1''" "[''name'' \<mapsto> JStr ''Teens'']" "''2024-01-01T00:00:00.000Z''" NoFault
      example_programs r1 "''2024-01-02T00:00:00.000Z''" NoFault
      example_env "Some ''f1''" example_form NoFault example_families "''/admin/families/f1''"
      NoFault]
  show ?thesis using p p' q by blast
qed

text \<open>C7 as stated fails: the second application at a later time changes the column
  \<open>updated_at\<close> of the stored program.\<close>

theorem repeated_update_counterexample:
  "hd (snd (updateProgram ''p1'' [''name'' \<mapsto> JStr ''Teens''] ''2024-01-02T00:00:00.000Z'' NoFault
         (snd (updateProgram ''p1'' [''name'' \<mapsto> JStr ''Teens''] ''2024-01-01T00:00:00.000Z''
                NoFault example_programs)))) ''updated_at''
   \<noteq> hd (snd (updateProgram ''p1'' [''name'' \<mapsto> JStr ''Teens''] ''2024-01-01T00:00:00.000Z''
                NoFault example_programs)) ''updated_at''"
  by (simp add: updateProgram_def client_update_single_def matching_def apply_update_def
      example_programs_def program_updateData_apply update_fields_def map_add_def)

text \<open>
  C8, as the code has it. The payload \<open>updateProgram\<close> issues holds \<open>updated_at\<close>, always
  set to the time of the call, and exactly those of the twenty members the function
  copies (\<open>name\<close> to \<open>is_active\<close>) that \<open>updates\<close> defines, with their values; any other
  member of \<open>updates\<close> is not sent. When the database answers without error and one stored
  row has the id, the update goes through and returns the updated row; whenever it goes
  through, the row of that id is the old row overwritten with the payload and every
  other row is unchanged; when it throws, nothing is written. In every case a column that
  \<open>updates\<close> does not provide, other than \<open>updated_at\<close>, is unchanged in every stored row.
\<close>

theorem updateProgram_frame:
  "dom (program_updateData now updates)
       = (dom updates \<inter> set update_fields) \<union> {''updated_at''}
   \<and> program_updateData now updates ''updated_at'' = Some (JStr now)
   \<and> (\<forall>k \<in> set update_fields.
         updates k \<noteq> None \<longrightarrow> program_updateData now updates k = updates k)
   \<and> list_all2 (\<lambda>r r'. \<forall>k. updates k = None \<and> k \<noteq> ''updated_at'' \<longrightarrow> r' k = r k)
        programs (snd (updateProgram ident updates now f programs))
   \<and> (f = NoFault \<and> length (matching ''id'' (JStr ident) programs) = 1 \<longrightarrow>
        (\<exists>row. matching ''id'' (JStr ident) programs = [row]
           \<and> fst (updateProgram ident updates now f programs)
               = Inr (Some (row ++ program_updateData now updates))))
   \<and> (\<forall>res. fst (updateProgram ident updates now f programs) = Inr res \<longrightarrow>
        list_all2 (\<lambda>r r'. r' = (if r ''id'' = Some (JStr ident)
                                then r ++ program_updateData now updates else r))
          programs (snd (updateProgram ident updates now f programs)))
   \<and> (\<forall>x. fst (updateProgram ident updates now f programs) = Inl x \<longrightarrow>
        snd (updateProgram ident updates now f programs) = programs)"
proof -
  have d: "dom (program_updateData now updates)
             = (dom updates \<inter> set update_fields) \<union> {''updated_at''}"
    by (auto simp: program_updateData_apply dom_def split: if_splits)
  have u: "program_updateData now updates ''updated_at'' = Some (JStr now)"
    using updated_at_not_update_field by (simp add: program_updateData_apply)
  have c: "\<forall>k \<in> set update_fields.
         updates k \<noteq> None \<longrightarrow> program_updateData now updates k = updates k"
    by (simp add: program_updateData_apply)
  have n: "program_updateData now updates k = None"
    if "updates k = None" "k \<noteq> ''updated_at''" for k
    using that by (simp add: program_updateData_apply)
  have s: "list_all2 (\<lambda>r r'. \<forall>k. updates k = None \<and> k \<noteq> ''updated_at'' \<longrightarrow> r' k = r k)
            programs (snd (updateProgram ident updates now f programs))"
    using updateProgram_table [of ident updates now f programs]
    by (auto simp: list_all2_conv_all_nth apply_update_def map_add_def n)
  have g: "f = NoFault \<and> length (matching ''id'' (JStr ident) programs) = 1 \<longrightarrow>
        (\<exists>row. matching ''id'' (JStr ident) programs = [row]
           \<and> fst (updateProgram ident updates now f programs)
               = Inr (Some (row ++ program_updateData now updates)))"
  proof (intro impI, elim conjE)
    assume nf: "f = NoFault" and "length (matching ''id'' (JStr ident) programs) = 1"
    then obtain row where row: "matching ''id'' (JStr ident) programs = [row]"
      by (cases "matching ''id'' (JStr ident) programs") auto
    from updateProgram_NoFault_result [OF row, of updates now] nf row
    show "\<exists>row. matching ''id'' (JStr ident) programs = [row]
           \<and> fst (updateProgram ident updates now f programs)
               = Inr (Some (row ++ program_updateData now updates))"
      by simp
  qed
  have w: "\<forall>res. fst (updateProgram ident updates now f programs) = Inr res \<longrightarrow>
        list_all2 (\<lambda>r r'. r' = (if r ''id'' = Some (JStr ident)
                                then r ++ program_updateData now updates else r))
          programs (snd (updateProgram ident updates now f programs))"
  proof (intro allI impI)
    fix res
    assume "fst (updateProgram ident updates now f programs) = Inr res"
    from updateProgram_ok_table [OF this]
    show "list_all2 (\<lambda>r r'. r' = (if r ''id'' = Some (JStr ident)
                                then r ++ program_updateData now updates else r))
          programs (snd (updateProgram ident updates now f programs))"
      by (simp add: apply_update_rows)
  qed
  have t: "\<forall>x. fst (updateProgram ident updates now f programs) = Inl x \<longrightarrow>
        snd (updateProgram ident updates now f programs) = programs"
    by (intro allI impI) (rule updateProgram_thrown_table)
  show ?thesis
    by (intro conjI) (fact d, fact u, fact c, fact s, fact g, fact w, fact t)
qed

theorem updateProgram_frame_witness:
  "length (matching ''id'' (JStr ''p1'') example_programs) = 1
   \<and> hd (snd (updateProgram ''p1'' [''name'' \<mapsto> JStr ''Teens''] ''2024-01-01T00:00:00.000Z''
              NoFault example_programs)) ''name'' = Some (JStr ''Teens'')
   \<and> hd (snd (updateProgram ''p1'' [''name'' \<mapsto> JStr ''Teens''] ''2024-01-01T00:00:00.000Z''
              NoFault example_programs)) ''updated_at''
       = Some (JStr ''2024-01-01T00:00:00.000Z'')
   \<and> hd (snd (updateProgram ''p1'' [''name'' \<mapsto> JStr ''Teens''] ''2024-01-01T00:00:00.000Z''
              NoFault example_programs)) ''monthly_fee'' = Some (JNum 100)"
proof -
  let ?u = "[''name'' \<mapsto> JStr ''Teens'']" and ?now = "''2024-01-01T00:00:00.000Z''"
  let ?t = "snd (updateProgram ''p1'' ?u ?now NoFault example_programs)"
  let ?p = "program_updateData ?now ?u"
  have m: "length (matching ''id'' (JStr ''p1'') example_programs) = 1"
    by (simp add: matching_def example_programs_def)
  note th = updateProgram_frame [of ?now ?u example_programs "''p1''" NoFault]
  note updated = th [THEN conjunct2, THEN conjunct1]
  note copied = th [THEN conjunct2, THEN conjunct2, THEN conjunct1]
  note frame = th [THEN conjunct2, THEN conjunct2, THEN conjunct2, THEN conjunct1]
  note goes = th [THEN conjunct2, THEN conjunct2, THEN conjunct2, THEN conjunct2,
      THEN conjunct1]
  note written = th [THEN conjunct2, THEN conjunct2, THEN conjunct2, THEN conjunct2,
      THEN conjunct2, THEN conjunct1]
  from goes m obtain res where
    "fst (updateProgram ''p1'' ?u ?now NoFault example_programs) = Inr res"
    by auto
  with written have "list_all2 (\<lambda>r r'. r' = (if r ''id'' = Some (JStr ''p1'')
                                then r ++ ?p else r))
          example_programs ?t"
    by simp
  then have h: "hd ?t = hd example_programs ++ ?p"
    by (auto simp: example_programs_def list_all2_Cons1)
  from copied have nm: "?p ''name'' = Some (JStr ''Teens'')"
    by (simp add: update_fields_def)
  from frame have fee: "hd ?t ''monthly_fee'' = hd example_programs ''monthly_fee''"
    by (auto simp: example_programs_def list_all2_Cons1)
  show ?thesis
    using m h nm updated fee
    by (simp add: example_programs_def map_add_def)
qed

text \<open>C8 as stated fails: a member \<open>id\<close> that \<open>updates\<close> defines is not in the payload, and
  a member \<open>updated_at\<close> that \<open>updates\<close> defines is replaced by the time of the call.\<close>

theorem updateProgram_payload_counterexample:
  "[''id'' \<mapsto> JStr ''p9'', ''name'' \<mapsto> JStr ''Teens''] ''id'' = Some (JStr ''p9'')
   \<and> program_updateData ''2024-01-01T00:00:00.000Z''
        [''id'' \<mapsto> JStr ''p9'', ''name'' \<mapsto> JStr ''Teens''] ''id'' = None
   \<and> [''updated_at'' \<mapsto> JStr ''1999-01-01T00:00:00.000Z''] ''updated_at''
       = Some (JStr ''1999-01-01T00:00:00.000Z'')
   \<and> program_updateData ''2024-01-01T00:00:00.000Z''
        [''updated_at'' \<mapsto> JStr ''1999-01-01T00:00:00.000Z''] ''updated_at''
       = Some (JStr ''2024-01-01T00:00:00.000Z'')"
  by (simp add: program_updateData_apply update_fields_def)

text \<open>
  C9. \<open>getFamilyIndividualSessions\<close> never throws. When the read goes through, the
  purchases are the fetched rows of the family, and \<open>totalPurchased\<close> and
  \<open>totalRemaining\<close> are the sums of \<open>quantity_purchased\<close> and \<open>quantity_remaining\<close> over
  the session purchases of the family, as long as the absolute values of the summed
  quantities add up to at most \<open>2^53\<close> (so that no addition rounds); when the read answers
  with an error or throws, both totals are 0 and the list of purchases is empty.
\<close>

theorem getFamilyIndividualSessions_totals:
  "\<exists>info. getFamilyIndividualSessions fid c = Inr info
     \<and> (if db_faults c One_on_one_sessions = NoFault
        then (sum_list (map (\<lambda>s. \<bar>quantity_purchased s\<bar>)
                (filter (\<lambda>s. sessions_family_id s = fid) (db_one_on_one_sessions c)))
                \<le> 9007199254740992
              \<longrightarrow> totalPurchased info
                    = Num (sum_list (map quantity_purchased
                        (filter (\<lambda>s. sessions_family_id s = fid)
                           (db_one_on_one_sessions c)))))
           \<and> (sum_list (map (\<lambda>s. \<bar>quantity_remaining s\<bar>)
                (filter (\<lambda>s. sessions_family_id s = fid) (db_one_on_one_sessions c)))
                \<le> 9007199254740992
              \<longrightarrow> totalRemaining info
                    = Num (sum_list (map quantity_remaining
                        (filter (\<lambda>s. sessions_family_id s = fid)
                           (db_one_on_one_sessions c)))))
           \<and> map purchase_id (purchases info) = map sessions_id (sessions_query fid c)
           \<and> map quantityPurchased (purchases info)
               = map quantity_purchased (sessions_query fid c)
           \<and> map quantityRemaining (purchases info)
               = map quantity_remaining (sessions_query fid c)
           \<and> mset (sessions_query fid c)
               = mset (filter (\<lambda>s. sessions_family_id s = fid) (db_one_on_one_sessions c))
        else totalPurchased info = Num 0 \<and> totalRemaining info = Num 0
           \<and> purchases info = [])"
proof (cases "db_faults c One_on_one_sessions")
  case NoFault
  have fold_map: "foldl (\<lambda>acc p. js_add acc (Num (g p))) a (map h xs)
      = foldl (\<lambda>acc s. js_add acc (Num (g (h s)))) a xs" for g h a and xs :: "session_row list"
    by (induction xs arbitrary: a) simp_all
  show ?thesis
    using NoFault
    by (simp add: getFamilyIndividualSessions_def getFamilyIndividualSessions_try_def
        select_rows_def fold_map sessions_total o_def)
      (simp add: sessions_query_def)
next
  case (Fails err)
  then show ?thesis
    by (simp add: getFamilyIndividualSessions_def getFamilyIndividualSessions_try_def
        select_rows_def no_sessions_def)
next
  case (Throws x)
  then show ?thesis
    by (simp add: getFamilyIndividualSessions_def getFamilyIndividualSessions_try_def
        select_rows_def no_sessions_def)
qed

theorem getFamilyIndividualSessions_totals_witness:
  "db_faults example_client One_on_one_sessions = NoFault
   \<and> sum_list (map (\<lambda>s. \<bar>quantity_purchased s\<bar>)
        (filter (\<lambda>s. sessions_family_id s = ''f1'') (db_one_on_one_sessions example_client)))
       \<le> 9007199254740992
   \<and> sum_list (map (\<lambda>s. \<bar>quantity_remaining s\<bar>)
        (filter (\<lambda>s. sessions_family_id s = ''f1'') (db_one_on_one_sessions example_client)))
       \<le> 9007199254740992
   \<and> totalPurchased (projr (getFamilyIndividualSessions ''f1'' example_client)) = Num 8
   \<and> totalRemaining (projr (getFamilyIndividualSessions ''f1'' example_client)) = Num 5"
proof -
  have h: "db_faults example_client One_on_one_sessions = NoFault"
    by (simp add: example_client_def)
  have q: "filter (\<lambda>s. sessions_family_id s = ''f1'') (db_one_on_one_sessions example_client)
     = [\<lparr>sessions_id = ''o1'', sessions_family_id = ''f1'', purchase_date = ''2024-01-05'',
          quantity_purchased = 5, quantity_remaining = 2\<rparr>,
        \<lparr>sessions_id = ''o2'', sessions_family_id = ''f1'', purchase_date = ''2024-02-01'',
          quantity_purchased = 3, quantity_remaining = 3\<rparr>]"
    by (simp add: example_client_def)
  from getFamilyIndividualSessions_totals [of "''f1''" example_client] h
  show ?thesis by (auto simp: q)
qed

text \<open>
  C10. \<open>checkProgramEligibility\<close> never throws, and \<open>eligible\<close> is true exactly when the
  list of reasons is empty: the result is \<open>{eligible: true, reasons: []}\<close> when the
  database function yields a truthy value, and an ineligible result with a non-empty list
  of reasons when it yields a falsy value, the query answers with an error, or the call
  throws.
\<close>

theorem checkProgramEligibility_invariant:
  "\<exists>r. checkProgramEligibility pid sid rpc = Inr r
       \<and> (eligible r \<longleftrightarrow> reasons r = [])
       \<and> (if rpc_truthy (rpc sid pid)
          then r = \<lparr>eligible = True, reasons = []\<rparr>
          else \<not> eligible r \<and> reasons r \<noteq> [])"
proof (cases "rpc_truthy (rpc sid pid)")
  case True
  then show ?thesis
    by (auto simp: checkProgramEligibility_def checkProgramEligibility_try_def
        rpc_truthy_def split: sum.splits option.splits)
next
  case False
  then show ?thesis
    by (auto simp: checkProgramEligibility_def checkProgramEligibility_try_def
        rpc_truthy_def split: sum.splits option.splits)
qed

end
